theory Spec2Isabelle
  imports Complex_Main
begin

section \<open>Data model\<close>

text \<open>
  The persistent state is the set of tables the ORM models declare. Money columns
  (\<open>Numeric(20, 8)\<close>, Python \<open>Decimal\<close>) and percentages are modelled as exact
  rationals, calendar dates as day numbers (\<open>int\<close>), nullable columns as \<open>option\<close>.
  A wallet row is identified by its unique key \<open>(user_id, wallet_type)\<close>
  (\<open>unique_user_wallet_type\<close>), a user and a package by their primary key.

  Each operation takes the stored state and returns the state it commits; an operation that
  rolls back or returns before its commit returns the state it was given. \<open>date.today()\<close>
  is a parameter. Not modelled: the precision and rounding of \<open>Decimal\<close> and of the numeric
  columns, the coercion of Python values to column types, descriptions and timestamps of the
  rows, and interleavings of concurrent requests. An exception that the source catches is a
  branch of the model: the caught error is the value, and the state is the one the handler
  leaves.
\<close>

datatype error = ValueError | AttributeError | TypeError | ZeroDivisionError | UnboundLocalError

datatype InvestmentStatus = ACTIVE | MATURED | CANCELLED

datatype PackageStatus = PKG_ACTIVE | PKG_CANCELLED

record Wallet =
  balance :: rat
  locked_balance :: rat

record User =
  sponsor_id :: "int option"
  is_active :: bool
  total_earnings :: rat

record Referral =
  referrer_id :: int
  referred_id :: int
  level :: int
  edge_is_active :: bool
  total_commission_earned :: rat

record InvestmentPackage =
  min_amount :: rat
  max_amount :: "rat option"
  total_return_percentage :: rat
  duration_days :: int
  end_date :: "int option"
  pkg_status :: PackageStatus

record UserInvestment =
  inv_id :: int
  user_id :: int
  package_id :: int
  amount_invested :: rat
  investment_date :: int
  returns_start_date :: "int option"
  maturity_date :: "int option"
  total_returns_paid :: rat
  last_return_date :: "int option"
  status :: InvestmentStatus

record InvestmentReturn =
  investment_id :: int
  return_date :: int
  return_amount :: rat
  days_since_start :: int

text \<open>An audit row: user id, transaction type, wallet type, amount.\<close>

datatype Transaction = Transaction int string string rat

text \<open>An income ledger row: user id, income type, amount, source user, level.\<close>

datatype Income = Income int string rat "int option" "int option"

record db =
  wallets :: "int \<times> string \<Rightarrow> Wallet option"
  users :: "int \<Rightarrow> User option"
  referrals :: "Referral list"
  packages :: "int \<Rightarrow> InvestmentPackage option"
  investments :: "UserInvestment list"
  investment_returns :: "InvestmentReturn list"
  transactions :: "Transaction list"
  incomes :: "Income list"

section \<open>Python numbers\<close>

text \<open>
  The numeric columns give Python values of different types: a \<open>Numeric\<close> column reads as a
  \<open>Decimal\<close>, a \<open>Float\<close> column as a \<open>float\<close>, an \<open>Integer\<close> column or a literal as an
  \<open>int\<close>. Where the type decides what the code does, a number is its type tag with its value.
  Comparisons work across the three types. Arithmetic between a \<open>Decimal\<close> and a \<open>float\<close>
  raises \<open>TypeError\<close>; otherwise the result is a \<open>Decimal\<close> if an operand is one, else a
  \<open>float\<close> if an operand is one, else an \<open>int\<close> (a \<open>float\<close> for the true division \<open>/\<close>).
\<close>

datatype pytype = PyInt | PyFloat | PyDecimal

type_synonym pynum = "pytype \<times> rat"

definition result_type :: "pytype \<Rightarrow> pytype \<Rightarrow> error + pytype" where
  "result_type a b =
     (if (a = PyDecimal \<and> b = PyFloat) \<or> (a = PyFloat \<and> b = PyDecimal) then Inl TypeError
      else if a = PyDecimal \<or> b = PyDecimal then Inr PyDecimal
      else if a = PyFloat \<or> b = PyFloat then Inr PyFloat
      else Inr PyInt)"

definition py_mul :: "pynum \<Rightarrow> pynum \<Rightarrow> error + pynum" where
  "py_mul x y =
     (case result_type (fst x) (fst y) of
        Inl e \<Rightarrow> Inl e
      | Inr ty \<Rightarrow> Inr (ty, snd x * snd y))"

definition py_sub :: "pynum \<Rightarrow> pynum \<Rightarrow> error + pynum" where
  "py_sub x y =
     (case result_type (fst x) (fst y) of
        Inl e \<Rightarrow> Inl e
      | Inr ty \<Rightarrow> Inr (ty, snd x - snd y))"

definition py_truediv :: "pynum \<Rightarrow> pynum \<Rightarrow> error + pynum" where
  "py_truediv x y =
     (case result_type (fst x) (fst y) of
        Inl e \<Rightarrow> Inl e
      | Inr ty \<Rightarrow>
          if snd y = 0 then Inl ZeroDivisionError
          else Inr (if ty = PyInt then PyFloat else ty, snd x / snd y))"

text \<open>\<open>min(a, b)\<close> and \<open>max(a, b)\<close> return the first of two equal arguments.\<close>

definition py_min :: "pynum \<Rightarrow> pynum \<Rightarrow> pynum" where
  "py_min a b = (if snd b < snd a then b else a)"

definition py_max :: "pynum \<Rightarrow> pynum \<Rightarrow> pynum" where
  "py_max a b = (if snd b > snd a then b else a)"

section \<open>Ledger: \<open>models/wallet.py\<close>\<close>

definition available_balance :: "Wallet \<Rightarrow> rat" where
  "available_balance w = balance w - locked_balance w"

definition get_income_wallet_types :: "string list" where
  "get_income_wallet_types = [''total_gain'', ''level_bonus'', ''total_referral'']"

definition get_wallet_types :: "string list" where
  "get_wallet_types =
     [''available_fund'', ''total_gain'', ''level_bonus'', ''total_referral'', ''total_income'']"

text \<open>\<open>Wallet(user_id=..., wallet_type=..., balance=0)\<close>; \<open>locked_balance\<close> takes its column default.\<close>

definition new_wallet :: Wallet where
  "new_wallet = \<lparr>balance = 0, locked_balance = 0\<rparr>"

text \<open>
  \<open>_update_total_income_wallet\<close>: looks the user's \<open>total_income\<close> row up and adds the
  amount only when the row exists and is not the wallet being credited.
\<close>

definition update_total_income_wallet :: "int \<times> string \<Rightarrow> rat \<Rightarrow> db \<Rightarrow> db" where
  "update_total_income_wallet self amount s =
     (case wallets s (fst self, ''total_income'') of
        None \<Rightarrow> s
      | Some t \<Rightarrow>
          if (fst self, ''total_income'') \<noteq> self
          then s\<lparr>wallets := (wallets s)((fst self, ''total_income'') \<mapsto>
                   t\<lparr>balance := balance t + amount\<rparr>)\<rparr>
          else s)"

definition log_wallet_transaction :: "int \<times> string \<Rightarrow> string \<Rightarrow> rat \<Rightarrow> db \<Rightarrow> db" where
  "log_wallet_transaction self transaction_type amount s =
     s\<lparr>transactions := transactions s @ [Transaction (fst self) transaction_type (snd self) amount]\<rparr>"

text \<open>
  The wallet methods are called on a row object; calling one on the \<open>None\<close> that a failed
  lookup returns raises \<open>AttributeError\<close>.
\<close>

definition add_balance :: "int \<times> string \<Rightarrow> rat \<Rightarrow> db \<Rightarrow> error + db" where
  "add_balance self amount s =
     (case wallets s self of
        None \<Rightarrow> Inl AttributeError
      | Some w \<Rightarrow>
          if amount \<le> 0 then Inl ValueError
          else
            let s1 = s\<lparr>wallets := (wallets s)(self \<mapsto> w\<lparr>balance := balance w + amount\<rparr>)\<rparr>;
                s2 = (if snd self \<in> set get_income_wallet_types
                      then update_total_income_wallet self amount s1 else s1)
            in Inr (log_wallet_transaction self ''credit'' amount s2))"

definition subtract_balance :: "int \<times> string \<Rightarrow> rat \<Rightarrow> db \<Rightarrow> error + db" where
  "subtract_balance self amount s =
     (case wallets s self of
        None \<Rightarrow> Inl AttributeError
      | Some w \<Rightarrow>
          if amount \<le> 0 then Inl ValueError
          else if available_balance w < amount then Inl ValueError
          else
            Inr (log_wallet_transaction self ''debit'' amount
                  (s\<lparr>wallets := (wallets s)(self \<mapsto> w\<lparr>balance := balance w - amount\<rparr>)\<rparr>)))"

definition lock_balance :: "int \<times> string \<Rightarrow> rat \<Rightarrow> db \<Rightarrow> error + db" where
  "lock_balance self amount s =
     (case wallets s self of
        None \<Rightarrow> Inl AttributeError
      | Some w \<Rightarrow>
          if amount \<le> 0 then Inl ValueError
          else if available_balance w < amount then Inl ValueError
          else Inr (s\<lparr>wallets := (wallets s)(self \<mapsto>
                        w\<lparr>locked_balance := locked_balance w + amount\<rparr>)\<rparr>))"

definition unlock_balance :: "int \<times> string \<Rightarrow> rat \<Rightarrow> db \<Rightarrow> error + db" where
  "unlock_balance self amount s =
     (case wallets s self of
        None \<Rightarrow> Inl AttributeError
      | Some w \<Rightarrow>
          if amount \<le> 0 then Inl ValueError
          else if locked_balance w < amount then Inl ValueError
          else Inr (s\<lparr>wallets := (wallets s)(self \<mapsto>
                        w\<lparr>locked_balance := locked_balance w - amount\<rparr>)\<rparr>))"

text \<open>\<open>transfer_to\<close>: the debit, the credit, then one more audit row of type \<open>transfer\<close>.\<close>

definition transfer_to :: "int \<times> string \<Rightarrow> int \<times> string \<Rightarrow> rat \<Rightarrow> db \<Rightarrow> error + db" where
  "transfer_to self target_wallet amount s =
     (case wallets s self of
        None \<Rightarrow> Inl AttributeError
      | Some w \<Rightarrow>
          if wallets s target_wallet = None then Inl ValueError
          else if amount \<le> 0 then Inl ValueError
          else if available_balance w < amount then Inl ValueError
          else
            (case subtract_balance self amount s of
               Inl e \<Rightarrow> Inl e
             | Inr s1 \<Rightarrow>
                 (case add_balance target_wallet amount s1 of
                    Inl e \<Rightarrow> Inl e
                  | Inr s2 \<Rightarrow>
                      Inr (s2\<lparr>transactions := transactions s2 @
                             [Transaction (fst self) ''transfer''
                                (snd self @ '' -> '' @ snd target_wallet) amount]\<rparr>))))"

text \<open>\<open>initialize_user_wallets\<close>: adds every known wallet type the user does not have yet.\<close>

definition ensure_wallet :: "int \<times> string \<Rightarrow> db \<Rightarrow> db" where
  "ensure_wallet k s =
     (case wallets s k of
        None \<Rightarrow> s\<lparr>wallets := (wallets s)(k \<mapsto> new_wallet)\<rparr>
      | Some w \<Rightarrow> s)"

definition initialize_user_wallets :: "int \<Rightarrow> db \<Rightarrow> db" where
  "initialize_user_wallets uid s = fold (\<lambda>wt. ensure_wallet (uid, wt)) get_wallet_types s"

text \<open>The balance a wallet shows, an absent row counting as zero (\<open>get_user_balances\<close>).\<close>

definition balance_of :: "db \<Rightarrow> int \<times> string \<Rightarrow> rat" where
  "balance_of s k = (case wallets s k of None \<Rightarrow> 0 | Some w \<Rightarrow> balance w)"

text \<open>The ledger invariant of one wallet row.\<close>

definition wallet_ok :: "Wallet \<Rightarrow> bool" where
  "wallet_ok w \<longleftrightarrow> 0 \<le> balance w \<and> 0 \<le> locked_balance w \<and> locked_balance w \<le> balance w"

section \<open>Referral graph and commissions: \<open>models/referral.py\<close>\<close>

text \<open>
  \<open>create_referral_chain\<close>: the \<open>while\<close> loop. A sponsor id is falsy when it is
  \<open>None\<close> or \<open>0\<close>. The loop variable \<open>level\<close> grows by one each round and the loop
  stops once it passes \<open>max_levels\<close>, which is the termination measure.
\<close>

function chain_loop ::
  "(int \<Rightarrow> User option) \<Rightarrow> int \<Rightarrow> int \<Rightarrow> int option \<Rightarrow> int \<Rightarrow> int set \<Rightarrow> Referral list
     \<Rightarrow> Referral list" where
  "chain_loop us new_user_id max_levels current_sponsor_id lvl visited_sponsors refs =
     (case current_sponsor_id of
        None \<Rightarrow> refs
      | Some c \<Rightarrow>
          if c = 0 \<or> \<not> lvl \<le> max_levels then refs
          else if c \<in> visited_sponsors then refs
          else
            chain_loop us new_user_id max_levels
              (case us c of None \<Rightarrow> None | Some sponsor \<Rightarrow> sponsor_id sponsor)
              (lvl + 1)
              (insert c visited_sponsors)
              (refs @ [\<lparr>referrer_id = c, referred_id = new_user_id, level = lvl,
                        edge_is_active = True, total_commission_earned = 0\<rparr>]))"
  by pat_completeness auto
termination
  by (relation "measure (\<lambda>(us, n, max_levels, c, lvl, v, refs). nat (max_levels + 1 - lvl))") auto

definition create_referral_chain ::
  "(int \<Rightarrow> User option) \<Rightarrow> int option \<Rightarrow> int \<Rightarrow> int \<Rightarrow> Referral list" where
  "create_referral_chain us sponsor new_user_id max_levels =
     (case sponsor of
        None \<Rightarrow> []
      | Some c \<Rightarrow> if c = 0 then [] else chain_loop us new_user_id max_levels (Some c) 1 {} [])"

text \<open>
  \<open>calculate_commission\<close>: a rate table that is \<open>None\<close> or empty is replaced by the
  defaults; a level the table does not list has rate 0.
\<close>

definition default_commission_rates :: "(int \<times> rat) list" where
  "default_commission_rates = [(1, 10), (2, 5), (3, 3), (4, 2), (5, 1)]"

definition rate_for :: "(int \<times> rat) list option \<Rightarrow> int \<Rightarrow> rat" where
  "rate_for commission_rates lvl =
     (let table = (case commission_rates of
                     None \<Rightarrow> default_commission_rates
                   | Some t \<Rightarrow> if t = [] then default_commission_rates else t)
      in case map_of table lvl of None \<Rightarrow> 0 | Some r \<Rightarrow> r)"

definition calculate_commission :: "rat \<Rightarrow> int \<Rightarrow> (int \<times> rat) list option \<Rightarrow> rat" where
  "calculate_commission investment_amount lvl commission_rates =
     investment_amount * rate_for commission_rates lvl / 100"

definition commission_wallet_type :: "int \<Rightarrow> string" where
  "commission_wallet_type lvl = (if lvl = 1 then ''total_referral'' else ''level_bonus'')"

definition add_commission_to_edge :: "Referral \<Rightarrow> rat \<Rightarrow> Referral list \<Rightarrow> Referral list" where
  "add_commission_to_edge e c rs =
     map (\<lambda>r. if referrer_id r = referrer_id e \<and> referred_id r = referred_id e
              then r\<lparr>total_commission_earned := total_commission_earned r + c\<rparr> else r) rs"

text \<open>
  The loop of \<open>distribute_commissions\<close> over the upline edges. It returns the exception
  that ended it (if any), the list \<open>commissions_distributed\<close> (referrer, level, amount,
  wallet type) and the session state reached, which the caller commits either way.
\<close>

fun distribute_loop ::
  "int \<Rightarrow> rat \<Rightarrow> (int \<times> rat) list option \<Rightarrow> Referral list \<Rightarrow> (int \<times> int \<times> rat \<times> string) list
     \<Rightarrow> db \<Rightarrow> error option \<times> (int \<times> int \<times> rat \<times> string) list \<times> db" where
  "distribute_loop uid amount rates [] acc s = (None, acc, s)"
| "distribute_loop uid amount rates (referral # rest) acc s =
     (let commission_amount = calculate_commission amount (level referral) rates in
      if commission_amount > 0 then
        (case users s (referrer_id referral) of
           None \<Rightarrow> distribute_loop uid amount rates rest acc s
         | Some referrer \<Rightarrow>
             if \<not> is_active referrer then distribute_loop uid amount rates rest acc s
             else
               let wallet_type = commission_wallet_type (level referral);
                   wallet = (referrer_id referral, wallet_type);
                   s1 = ensure_wallet wallet s
               in (case users s1 uid of
                     None \<Rightarrow> (Some AttributeError, acc, s1)
                   | Some purchaser \<Rightarrow>
                       (case add_balance wallet commission_amount s1 of
                          Inl e \<Rightarrow> (Some e, acc, s1)
                        | Inr s2 \<Rightarrow>
                            distribute_loop uid amount rates rest
                              (acc @ [(referrer_id referral, level referral, commission_amount, wallet_type)])
                              (s2\<lparr>referrals := add_commission_to_edge referral commission_amount (referrals s2),
                                  incomes := incomes s2 @
                                    [Income (referrer_id referral)
                                       (if level referral = 1 then ''Direct Referral'' else ''Level Bonus'')
                                       commission_amount (Some uid) (Some (level referral))],
                                  users := (users s2)(referrer_id referral \<mapsto>
                                    referrer\<lparr>total_earnings := total_earnings referrer + commission_amount\<rparr>)\<rparr>))))
      else distribute_loop uid amount rates rest acc s)"

text \<open>The query that opens \<open>distribute_commissions\<close>: the active edges whose referred user is the purchaser.\<close>

definition get_upline :: "db \<Rightarrow> int \<Rightarrow> Referral list" where
  "get_upline s uid = filter (\<lambda>r. referred_id r = uid \<and> edge_is_active r) (referrals s)"

definition distribute_commissions ::
  "int \<Rightarrow> rat \<Rightarrow> (int \<times> rat) list option \<Rightarrow> db
     \<Rightarrow> error option \<times> (int \<times> int \<times> rat \<times> string) list \<times> db" where
  "distribute_commissions uid investment_amount commission_rates s =
     distribute_loop uid investment_amount commission_rates (get_upline s uid) [] s"

section \<open>Positions and the accrual engine: \<open>models/investment.py\<close>, \<open>services/investment_service.py\<close>\<close>

text \<open>
  What a service function returns: a refusal with its message, the message of an exception its
  \<open>except\<close> clause caught (after rolling the session back), or success.
\<close>

datatype 'a result = Failure string | Raised error | Success 'a

text \<open>\<open>investment.package\<close>: the row of the package table the position points to.\<close>

definition package_of :: "db \<Rightarrow> UserInvestment \<Rightarrow> InvestmentPackage option" where
  "package_of s investment = packages s (package_id investment)"

text \<open>
  The properties \<open>expected_total_return\<close> and \<open>returns_remaining\<close>. \<open>self.package\<close> is \<open>None\<close>
  when the package row is missing, and reading an attribute of it raises. \<open>amount_invested\<close>
  and \<open>total_returns_paid\<close> are \<open>Numeric\<close> columns, \<open>total_return_percentage\<close> is a \<open>Float\<close>
  column.
\<close>

definition expected_total_return :: "db \<Rightarrow> UserInvestment \<Rightarrow> error + pynum" where
  "expected_total_return s investment =
     (case package_of s investment of
        None \<Rightarrow> Inl AttributeError
      | Some p \<Rightarrow>
          (case py_truediv (PyFloat, total_return_percentage p) (PyInt, 100) of
             Inl e \<Rightarrow> Inl e
           | Inr share \<Rightarrow> py_mul (PyDecimal, amount_invested investment) share))"

definition returns_remaining :: "db \<Rightarrow> UserInvestment \<Rightarrow> error + pynum" where
  "returns_remaining s investment =
     (case expected_total_return s investment of
        Inl e \<Rightarrow> Inl e
      | Inr expected \<Rightarrow>
          (case py_sub expected (PyDecimal, total_returns_paid investment) of
             Inl e \<Rightarrow> Inl e
           | Inr d \<Rightarrow> Inr (py_max (PyInt, 0) d)))"

text \<open>The filter of \<open>_get_eligible_investments\<close>; a comparison with a \<open>NULL\<close> date selects nothing.\<close>

definition eligible_on :: "int \<Rightarrow> UserInvestment \<Rightarrow> bool" where
  "eligible_on calculation_date investment =
     (status investment = ACTIVE \<and>
      (case returns_start_date investment of None \<Rightarrow> False | Some d \<Rightarrow> d \<le> calculation_date) \<and>
      (case maturity_date investment of None \<Rightarrow> False | Some d \<Rightarrow> d > calculation_date) \<and>
      (case last_return_date investment of None \<Rightarrow> True | Some d \<Rightarrow> d < calculation_date))"

definition get_eligible_investments :: "int \<Rightarrow> db \<Rightarrow> UserInvestment list" where
  "get_eligible_investments calculation_date s = filter (eligible_on calculation_date) (investments s)"

text \<open>The model property \<open>is_eligible_for_return_today\<close>, with Python's truthiness of the two dates.\<close>

definition is_eligible_for_return_today :: "int \<Rightarrow> UserInvestment \<Rightarrow> bool" where
  "is_eligible_for_return_today today investment =
     (status investment = ACTIVE \<and>
      returns_start_date investment \<noteq> None \<and>
      (case returns_start_date investment of None \<Rightarrow> False | Some d \<Rightarrow> d \<le> today) \<and>
      maturity_date investment \<noteq> None \<and>
      (case maturity_date investment of None \<Rightarrow> False | Some d \<Rightarrow> d > today) \<and>
      (last_return_date investment = None \<or>
       (case last_return_date investment of None \<Rightarrow> False | Some d \<Rightarrow> d < today)))"

text \<open>
  \<open>_calculate_daily_return\<close>: the three guards return the \<open>int\<close> 0; past them the arithmetic
  is carried out on the column values, each step raising what Python raises.
\<close>

definition calculate_daily_return :: "db \<Rightarrow> UserInvestment \<Rightarrow> int \<Rightarrow> error + pynum" where
  "calculate_daily_return s investment calculation_date =
     (case package_of s investment of
        None \<Rightarrow> Inr (PyInt, 0)
      | Some p \<Rightarrow>
          if duration_days p \<le> 0 then Inr (PyInt, 0)
          else if total_return_percentage p < 0 then Inr (PyInt, 0)
          else
            (case py_truediv (PyFloat, total_return_percentage p) (PyInt, 100) of
               Inl e \<Rightarrow> Inl e
             | Inr share \<Rightarrow>
                 (case py_mul (PyDecimal, amount_invested investment) share of
                    Inl e \<Rightarrow> Inl e
                  | Inr total_return \<Rightarrow>
                      (case py_truediv total_return (PyInt, of_int (duration_days p)) of
                         Inl e \<Rightarrow> Inl e
                       | Inr daily_return \<Rightarrow>
                           (case expected_total_return s investment of
                              Inl e \<Rightarrow> Inl e
                            | Inr expected \<Rightarrow>
                                (case py_sub expected (PyDecimal, total_returns_paid investment) of
                                   Inl e \<Rightarrow> Inl e
                                 | Inr remaining_return \<Rightarrow>
                                     Inr (py_max (PyInt, 0)
                                            (py_min daily_return remaining_return))))))))"

text \<open>A mutated position is written back to its row, found by primary key.\<close>

definition store_investment :: "UserInvestment \<Rightarrow> UserInvestment list \<Rightarrow> UserInvestment list" where
  "store_investment investment rows = map (\<lambda>r. if inv_id r = inv_id investment then investment else r) rows"

definition find_investment :: "db \<Rightarrow> int \<Rightarrow> UserInvestment option" where
  "find_investment s i = find (\<lambda>r. inv_id r = i) (investments s)"

text \<open>
  \<open>_process_investment_return\<close>: any exception (the credit refusing the amount, a missing
  package in the description, a missing start date in the day count) rolls the session back
  and returns \<open>False\<close>; otherwise everything is committed together.
\<close>

definition process_investment_return :: "db \<Rightarrow> UserInvestment \<Rightarrow> rat \<Rightarrow> int \<Rightarrow> bool \<times> db" where
  "process_investment_return s investment amount rdate =
     (let gain_wallet = (user_id investment, ''total_gain'');
          s1 = ensure_wallet gain_wallet s
      in case package_of s1 investment of
           None \<Rightarrow> (False, s)
         | Some p \<Rightarrow>
             (case add_balance gain_wallet amount s1 of
                Inl e \<Rightarrow> (False, s)
              | Inr s2 \<Rightarrow>
                  (case returns_start_date investment of
                     None \<Rightarrow> (False, s)
                   | Some start \<Rightarrow>
                       (True,
                        s2\<lparr>incomes := incomes s2 @ [Income (user_id investment) ''Bonus'' amount None None],
                           investments := store_investment
                             (investment\<lparr>total_returns_paid := total_returns_paid investment + amount,
                                  last_return_date := Some rdate\<rparr>) (investments s2),
                           investment_returns := investment_returns s2 @
                             [\<lparr>investment_id = inv_id investment, return_date = rdate, return_amount = amount,
                               days_since_start = rdate - start + 1\<rparr>]\<rparr>))))"

definition mature_if_due :: "int \<Rightarrow> UserInvestment \<Rightarrow> UserInvestment" where
  "mature_if_due today r =
     (if status r = ACTIVE \<and> (case maturity_date r of None \<Rightarrow> False | Some d \<Rightarrow> d \<le> today)
      then r\<lparr>status := MATURED\<rparr> else r)"

definition update_investment_statuses :: "int \<Rightarrow> db \<Rightarrow> db" where
  "update_investment_statuses today s = s\<lparr>investments := map (mature_if_due today) (investments s)\<rparr>"

text \<open>
  The batch loop; the accumulator is \<open>(total_processed, total_amount)\<close>. An exception raised
  for one position is logged and the loop goes on to the next.
\<close>

fun accrual_loop :: "int \<Rightarrow> UserInvestment list \<Rightarrow> nat \<times> rat \<Rightarrow> db \<Rightarrow> (nat \<times> rat) \<times> db" where
  "accrual_loop today [] acc s = (acc, s)"
| "accrual_loop today (investment # rest) acc s =
     (case calculate_daily_return s investment today of
        Inl e \<Rightarrow> accrual_loop today rest acc s
      | Inr ramount \<Rightarrow>
          if snd ramount > 0 then
            (case process_investment_return s investment (snd ramount) today of
               (True, s') \<Rightarrow> accrual_loop today rest (fst acc + 1, snd acc + snd ramount) s'
             | (False, s') \<Rightarrow> accrual_loop today rest acc s')
          else accrual_loop today rest acc s)"

definition calculate_daily_investment_returns :: "int \<Rightarrow> db \<Rightarrow> (nat \<times> rat) \<times> db" where
  "calculate_daily_investment_returns today s =
     (case accrual_loop today (get_eligible_investments today s) (0, 0) s of
        (acc, s') \<Rightarrow> (acc, update_investment_statuses today s'))"

text \<open>
  \<open>manual_distribute_returns\<close>; the amount is the \<open>Decimal\<close> the admin form parsed. Reading
  \<open>investment.returns_remaining\<close> may raise, which the \<open>except\<close> clause turns into a failure.
\<close>

definition manual_distribute_returns :: "db \<Rightarrow> int \<Rightarrow> rat \<Rightarrow> int \<Rightarrow> rat result \<times> db" where
  "manual_distribute_returns s i amount today =
     (case find_investment s i of
        None \<Rightarrow> (Failure ''Investment not found'', s)
      | Some investment \<Rightarrow>
          if amount \<le> 0 then (Failure ''Amount must be greater than 0'', s)
          else
            (case returns_remaining s investment of
               Inl e \<Rightarrow> (Raised e, s)
             | Inr remaining \<Rightarrow>
                 if amount > snd remaining then (Failure ''Amount exceeds remaining returns'', s)
                 else
                   (case process_investment_return s investment amount today of
                      (True, s') \<Rightarrow> (Success amount, s')
                    | (False, s') \<Rightarrow> (Failure ''Failed to process return'', s'))))"

text \<open>
  \<open>settle_matured_investment\<close>; the fee percent is whatever number the caller passes (the admin
  route builds a \<open>float\<close>, the default is the \<open>int\<close> 0), the principal is a \<open>Numeric\<close> column.
  The success value is \<open>(principal_returned, settlement_fee)\<close>.
\<close>

definition settle_matured_investment ::
  "db \<Rightarrow> int \<Rightarrow> string \<Rightarrow> pynum \<Rightarrow> (rat \<times> rat) result \<times> db" where
  "settle_matured_investment s i settlement_option settlement_fee_percent =
     (case find_investment s i of
        None \<Rightarrow> (Failure ''Investment not found'', s)
      | Some investment \<Rightarrow>
          if status investment \<noteq> MATURED then (Failure ''Investment is not matured yet'', s)
          else
            let principal_amount = (PyDecimal, amount_invested investment) in
            (case (if snd settlement_fee_percent > 0
                   then (case py_mul principal_amount settlement_fee_percent of
                           Inl e \<Rightarrow> Inl e
                         | Inr product \<Rightarrow> py_truediv product (PyInt, 100))
                   else Inr (PyInt, 0)) of
               Inl e \<Rightarrow> (Raised e, s)
             | Inr settlement_fee \<Rightarrow>
                 (case py_sub principal_amount settlement_fee of
                    Inl e \<Rightarrow> (Raised e, s)
                  | Inr net_principal \<Rightarrow>
                      if settlement_option = ''available_fund'' then
                        (let dest_wallet = (user_id investment, ''available_fund'');
                             s1 = ensure_wallet dest_wallet s
                         in case wallets s1 dest_wallet of
                              None \<Rightarrow> (Raised AttributeError, s)
                            | Some w \<Rightarrow>
                                (case package_of s1 investment of
                                   None \<Rightarrow> (Raised AttributeError, s)
                                 | Some p \<Rightarrow>
                                     (Success (snd net_principal, snd settlement_fee),
                                      s1\<lparr>wallets := (wallets s1)(dest_wallet \<mapsto>
                                             w\<lparr>balance := balance w + snd net_principal\<rparr>),
                                         investments := store_investment
                                           (investment\<lparr>status := CANCELLED\<rparr>) (investments s1)\<rparr>)))
                      else if settlement_option = ''keep_invested'' then
                        (case package_of s investment of
                           None \<Rightarrow> (Raised AttributeError, s)
                         | Some p \<Rightarrow>
                             (Success (snd principal_amount, snd settlement_fee),
                              s\<lparr>investments := store_investment
                                   (investment\<lparr>status := CANCELLED\<rparr>) (investments s)\<rparr>))
                      else (Failure ''Invalid settlement option'', s))))"

definition force_mature_investment :: "db \<Rightarrow> int \<Rightarrow> unit result \<times> db" where
  "force_mature_investment s i =
     (case find_investment s i of
        None \<Rightarrow> (Failure ''Investment not found'', s)
      | Some investment \<Rightarrow>
          if status investment \<noteq> ACTIVE then (Failure ''Investment is not active'', s)
          else (Success (),
                s\<lparr>investments := store_investment (investment\<lparr>status := MATURED\<rparr>) (investments s)\<rparr>))"

section \<open>Purchase: \<open>api/investments.py\<close>\<close>

text \<open>The responses that end a purchase before its commit; \<open>ServerError\<close> is the handler of an exception.\<close>

datatype rejection =
    FieldsRequired | AmountNotPositive | PackageNotFound | PackageNotAvailable
  | BelowMinimum | AboveMaximum | UserNotFound | AccountDeactivated
  | WalletNotFound | InsufficientFunds | DailyLimitExceeded | ServerError error

definition is_available_for_investment :: "int \<Rightarrow> InvestmentPackage \<Rightarrow> bool" where
  "is_available_for_investment today p =
     (pkg_status p = PKG_ACTIVE \<and>
      (case end_date p of None \<Rightarrow> True | Some d \<Rightarrow> d \<ge> today))"

text \<open>The sum of the amounts the user invested on the given day.\<close>

definition today_investments :: "db \<Rightarrow> int \<Rightarrow> int \<Rightarrow> rat" where
  "today_investments s uid today =
     sum_list (map amount_invested
       (filter (\<lambda>r. user_id r = uid \<and> investment_date r = today) (investments s)))"

text \<open>The primary key the database gives a new position row (autoincrement).\<close>

definition fresh_inv_id :: "db \<Rightarrow> int" where
  "fresh_inv_id s = fold max (map inv_id (investments s)) 0 + 1"

text \<open>
  \<open>purchase_investment\<close>, from the parsed request on. A rejection returns before anything
  is committed, so the stored state stays as it was; the package has no \<open>total_capacity\<close>
  attribute, so the capacity check is skipped. The function imports \<open>date\<close> locally further
  down, which makes \<open>date\<close> a local name of the whole function: the test
  \<open>package.end_date and package.end_date < date.today()\<close> raises \<open>UnboundLocalError\<close> as soon as
  the package has an end date, and the handler rolls back. A failure of the commission
  distribution is logged and the session is committed as it stands. \<open>Inr\<close> is the committed
  state; the response built after the commit is not modelled.
\<close>

definition purchase_investment :: "db \<Rightarrow> int \<Rightarrow> int \<Rightarrow> rat \<Rightarrow> int \<Rightarrow> rejection + db" where
  "purchase_investment s uid pid amount today =
     (if pid = 0 \<or> amount = 0 then Inl FieldsRequired
      else if amount \<le> 0 then Inl AmountNotPositive
      else
        case packages s pid of
          None \<Rightarrow> Inl PackageNotFound
        | Some package \<Rightarrow>
            if \<not> is_available_for_investment today package then Inl PackageNotAvailable
            else if (case end_date package of None \<Rightarrow> False | Some d \<Rightarrow> True)
              then Inl (ServerError UnboundLocalError)
            else if amount < min_amount package then Inl BelowMinimum
            else if (case max_amount package of None \<Rightarrow> False | Some m \<Rightarrow> m \<noteq> 0 \<and> amount > m)
              then Inl AboveMaximum
            else
              (case users s uid of
                 None \<Rightarrow> Inl UserNotFound
               | Some user \<Rightarrow>
                   if \<not> is_active user then Inl AccountDeactivated
                   else
                     let s1 = initialize_user_wallets uid s;
                         available_wallet = (uid, ''available_fund'')
                     in (case wallets s1 available_wallet of
                           None \<Rightarrow> Inl WalletNotFound
                         | Some w \<Rightarrow>
                             if balance w < amount then Inl InsufficientFunds
                             else if today_investments s1 uid today + amount > 50000
                               then Inl DailyLimitExceeded
                             else
                               let returns_start = today + 1;
                                   maturity = returns_start + duration_days package;
                                   investment =
                                     \<lparr>inv_id = fresh_inv_id s1, user_id = uid, package_id = pid,
                                      amount_invested = amount, investment_date = today,
                                      returns_start_date = Some returns_start,
                                      maturity_date = Some maturity, total_returns_paid = 0,
                                      last_return_date = None, status = ACTIVE\<rparr>;
                                   s2 = s1\<lparr>investments := investments s1 @ [investment],
                                           wallets := (wallets s1)(available_wallet \<mapsto>
                                              w\<lparr>balance := balance w - amount\<rparr>),
                                           transactions := transactions s1 @
                                              [Transaction uid ''investment_purchase'' ''available_fund'' amount]\<rparr>
                               in (case distribute_commissions uid amount None s2 of
                                     (e, paid, s3) \<Rightarrow> Inr s3))))"

section \<open>Predicates used in the statements\<close>

text \<open>The wallet an upline edge is paid into, and whether the loop pays the edge at all.\<close>

definition commission_wallet :: "Referral \<Rightarrow> int \<times> string" where
  "commission_wallet r = (referrer_id r, commission_wallet_type (level r))"

definition pays :: "db \<Rightarrow> rat \<Rightarrow> (int \<times> rat) list option \<Rightarrow> Referral \<Rightarrow> bool" where
  "pays s amount rates r =
     (0 < calculate_commission amount (level r) rates \<and>
      (case users s (referrer_id r) of None \<Rightarrow> False | Some u \<Rightarrow> is_active u))"

section \<open>Sample states\<close>

definition empty_db :: db where
  "empty_db = \<lparr>wallets = (\<lambda>k. None), users = (\<lambda>k. None), referrals = [],
     packages = (\<lambda>k. None), investments = [], investment_returns = [],
     transactions = [], incomes = []\<rparr>"

text \<open>User 1 owns a \<open>total_gain\<close> wallet and nothing else.\<close>

definition gain_only_db :: db where
  "gain_only_db = empty_db\<lparr>wallets := (wallets empty_db)((1, ''total_gain'') \<mapsto> new_wallet)\<rparr>"

text \<open>User 1 owns a \<open>total_gain\<close> wallet holding 3 and a \<open>total_income\<close> wallet holding 7.\<close>

definition income_db :: db where
  "income_db = empty_db\<lparr>wallets := (wallets empty_db)
     ((1, ''total_gain'') \<mapsto> \<lparr>balance = 3, locked_balance = 0\<rparr>,
      (1, ''total_income'') \<mapsto> \<lparr>balance = 7, locked_balance = 0\<rparr>)\<rparr>"

text \<open>Corrupt stored data: users 1 and 2 name each other as sponsor.\<close>

definition cyclic_users :: "int \<Rightarrow> User option" where
  "cyclic_users = (\<lambda>k. None)
     (1 \<mapsto> \<lparr>sponsor_id = Some 2, is_active = True, total_earnings = 0\<rparr>,
      2 \<mapsto> \<lparr>sponsor_id = Some 1, is_active = True, total_earnings = 0\<rparr>)"

text \<open>
  The purchase scenario of the specification: a package with 25 percent total return over
  180 days, and user 1's position of 200 bought on day 9, accruing from day 10 and maturing
  on day 190.
\<close>

definition sample_package :: InvestmentPackage where
  "sample_package = \<lparr>min_amount = 100, max_amount = Some 10000, total_return_percentage = 25,
     duration_days = 180, end_date = None, pkg_status = PKG_ACTIVE\<rparr>"

definition sample_position :: UserInvestment where
  "sample_position = \<lparr>inv_id = 1, user_id = 1, package_id = 1, amount_invested = 200,
     investment_date = 9, returns_start_date = Some 10, maturity_date = Some 190,
     total_returns_paid = 0, last_return_date = None, status = ACTIVE\<rparr>"

definition sample_db :: db where
  "sample_db = empty_db\<lparr>
     wallets := (wallets empty_db)((1, ''available_fund'') \<mapsto> \<lparr>balance = 300, locked_balance = 0\<rparr>),
     users := (users empty_db)(1 \<mapsto> \<lparr>sponsor_id = None, is_active = True, total_earnings = 0\<rparr>),
     packages := (packages empty_db)(1 \<mapsto> sample_package),
     investments := [sample_position]\<rparr>"

text \<open>The sample position after its term, flipped to \<open>MATURED\<close> by the maturity sweep.\<close>

definition matured_position :: UserInvestment where
  "matured_position = sample_position\<lparr>status := MATURED\<rparr>"

definition matured_db :: db where
  "matured_db = sample_db\<lparr>investments := [matured_position]\<rparr>"

text \<open>
  The commission scenario of the specification: user 3 was referred by user 1, whose sponsor
  is user 2; nobody has a wallet yet.
\<close>

definition commission_db :: db where
  "commission_db = empty_db\<lparr>
     users := (users empty_db)
       (1 \<mapsto> \<lparr>sponsor_id = Some 2, is_active = True, total_earnings = 0\<rparr>,
        2 \<mapsto> \<lparr>sponsor_id = None, is_active = True, total_earnings = 0\<rparr>,
        3 \<mapsto> \<lparr>sponsor_id = Some 1, is_active = True, total_earnings = 0\<rparr>),
     referrals :=
       [\<lparr>referrer_id = 1, referred_id = 3, level = 1, edge_is_active = True, total_commission_earned = 0\<rparr>,
        \<lparr>referrer_id = 2, referred_id = 3, level = 2, edge_is_active = True, total_commission_earned = 0\<rparr>]\<rparr>"

text \<open>
  User 1 holds 300 in \<open>available_fund\<close>, 250 of it locked by a pending withdrawal request
  (\<open>lock_balance\<close> in the withdrawal route), and has no position yet.
\<close>

definition locked_db :: db where
  "locked_db = sample_db\<lparr>
     wallets := (wallets sample_db)((1, ''available_fund'') \<mapsto> \<lparr>balance = 300, locked_balance = 250\<rparr>),
     investments := []\<rparr>"

section \<open>Ledger: crediting\<close>

text \<open>
  C9 (as amended). Crediting an existing wallet row: a non-positive amount is refused with
  \<open>ValueError\<close>; a positive amount raises the wallet's balance by the amount and appends one
  audit row of type \<open>credit\<close>; when the wallet's type is one of the three income types, the same
  user's \<open>total_income\<close> row is raised by the same amount provided that row exists, and when it
  does not exist none is created.
\<close>

theorem add_balance_credit:
  "wallets s self = Some w \<Longrightarrow>
     (amount \<le> 0 \<longrightarrow> add_balance self amount s = Inl ValueError) \<and>
     (0 < amount \<longrightarrow>
        (\<exists>s'. add_balance self amount s = Inr s' \<and>
           balance_of s' self = balance w + amount \<and>
           transactions s' = transactions s @ [Transaction (fst self) ''credit'' (snd self) amount] \<and>
           (snd self \<in> set get_income_wallet_types \<longrightarrow>
              (case wallets s (fst self, ''total_income'') of
                 None \<Rightarrow> wallets s' (fst self, ''total_income'') = None
               | Some t \<Rightarrow> balance_of s' (fst self, ''total_income'') = balance t + amount))))"
  by (cases self)
     (auto simp: add_balance_def Let_def update_total_income_wallet_def log_wallet_transaction_def
        balance_of_def get_income_wallet_types_def split: option.splits)

text \<open>The theorem at user 1 of \<open>income_db\<close>: crediting 5 to \<open>total_gain\<close> (3) gives 8 and lifts \<open>total_income\<close> from 7 to 12.\<close>

theorem add_balance_credit_witness:
  "wallets income_db (1, ''total_gain'') = Some \<lparr>balance = 3, locked_balance = 0\<rparr> \<and>
   ''total_gain'' \<in> set get_income_wallet_types \<and>
   add_balance (1, ''total_gain'') 0 income_db = Inl ValueError \<and>
   \<not> isl (add_balance (1, ''total_gain'') 5 income_db) \<and>
   balance_of (projr (add_balance (1, ''total_gain'') 5 income_db)) (1, ''total_gain'') = 8 \<and>
   balance_of (projr (add_balance (1, ''total_gain'') 5 income_db)) (1, ''total_income'') = 12 \<and>
   transactions (projr (add_balance (1, ''total_gain'') 5 income_db)) =
     [Transaction 1 ''credit'' ''total_gain'' 5]"
proof -
  have w: "wallets income_db (1, ''total_gain'') = Some \<lparr>balance = 3, locked_balance = 0\<rparr>"
    by (simp add: income_db_def empty_db_def)
  have t: "wallets income_db (1, ''total_income'') = Some \<lparr>balance = 7, locked_balance = 0\<rparr>"
    by (simp add: income_db_def empty_db_def)
  have i: "''total_gain'' \<in> set get_income_wallet_types"
    by (simp add: get_income_wallet_types_def)
  have tr: "transactions income_db = []"
    by (simp add: income_db_def empty_db_def)
  from add_balance_credit [OF w, of 0] have z: "add_balance (1, ''total_gain'') 0 income_db = Inl ValueError"
    by simp
  from add_balance_credit [OF w, of 5] obtain s' where
    s': "add_balance (1, ''total_gain'') 5 income_db = Inr s'"
    and b: "balance_of s' (1, ''total_gain'') = 3 + 5"
    and l: "transactions s' = transactions income_db @ [Transaction 1 ''credit'' ''total_gain'' 5]"
    and a: "balance_of s' (1, ''total_income'') = 7 + 5"
    using i t by auto
  show ?thesis using w i z s' b l a tr by simp
qed

text \<open>
  The claim as stated fails where the user has no \<open>total_income\<close> row: user 1 of
  \<open>gain_only_db\<close> is credited 5 on \<open>total_gain\<close>, an income type, and afterwards still has no
  \<open>total_income\<close> wallet, so no aggregate balance went up by 5.
\<close>

theorem add_balance_total_income_counterexample:
  "''total_gain'' \<in> set get_income_wallet_types \<and>
   \<not> isl (add_balance (1, ''total_gain'') 5 gain_only_db) \<and>
   balance_of (projr (add_balance (1, ''total_gain'') 5 gain_only_db)) (1, ''total_gain'') = 5 \<and>
   wallets (projr (add_balance (1, ''total_gain'') 5 gain_only_db)) (1, ''total_income'') = None \<and>
   balance_of (projr (add_balance (1, ''total_gain'') 5 gain_only_db)) (1, ''total_income'') =
     balance_of gain_only_db (1, ''total_income'')"
  by (simp add: add_balance_def gain_only_db_def empty_db_def new_wallet_def Let_def
        get_income_wallet_types_def update_total_income_wallet_def log_wallet_transaction_def balance_of_def)

section \<open>Referral chain\<close>


declare chain_loop.simps [simp del]

lemma chain_loop_None: "chain_loop us n m None lvl v refs = refs"
  by (subst chain_loop.simps) simp

lemma chain_loop_stop:
  "x = 0 \<or> \<not> lvl \<le> m \<or> x \<in> v \<Longrightarrow> chain_loop us n m (Some x) lvl v refs = refs"
  by (subst chain_loop.simps) auto

lemma chain_loop_step:
  "\<not> (x = 0 \<or> \<not> lvl \<le> m \<or> x \<in> v) \<Longrightarrow>
   chain_loop us n m (Some x) lvl v refs =
     chain_loop us n m (case us x of None \<Rightarrow> None | Some sponsor \<Rightarrow> sponsor_id sponsor) (lvl + 1)
       (insert x v)
       (refs @ [\<lparr>referrer_id = x, referred_id = n, level = lvl, edge_is_active = True,
                 total_commission_earned = 0\<rparr>])"
  by (subst chain_loop.simps) auto

lemma chain_loop_length:
  "length (chain_loop us n m c lvl v refs) \<le> length refs + nat (m + 1 - lvl)"
proof (induction us n m c lvl v refs rule: chain_loop.induct)
  case (1 us n m c lvl v refs)
  show ?case
  proof (cases c)
    case None
    then show ?thesis by (simp add: chain_loop_None)
  next
    case (Some x)
    show ?thesis
    proof (cases "x = 0 \<or> \<not> lvl \<le> m \<or> x \<in> v")
      case True
      with Some show ?thesis by (simp add: chain_loop_stop)
    next
      case False
      with Some "1.IH" [of x] have
        "length (chain_loop us n m (case us x of None \<Rightarrow> None | Some sp \<Rightarrow> sponsor_id sp) (lvl + 1) (insert x v)
            (refs @ [\<lparr>referrer_id = x, referred_id = n, level = lvl, edge_is_active = True,
                      total_commission_earned = 0\<rparr>]))
          \<le> length refs + 1 + nat (m + 1 - (lvl + 1))"
        by simp
      moreover from False have "1 + nat (m + 1 - (lvl + 1)) = nat (m + 1 - lvl)" by linarith
      ultimately show ?thesis using Some False by (simp add: chain_loop_step)
    qed
  qed
qed

lemma chain_loop_levels:
  "1 \<le> lvl \<Longrightarrow> map level refs = [1..lvl - 1] \<Longrightarrow>
   map level (chain_loop us n m c lvl v refs) = [1..int (length (chain_loop us n m c lvl v refs))]"
proof (induction us n m c lvl v refs rule: chain_loop.induct)
  case (1 us n m c lvl v refs)
  from "1.prems" have len: "int (length refs) = lvl - 1"
    proof -
    have "length refs = length (map level refs)" by simp
    also have "\<dots> = nat (lvl - 1 - 1 + 1)" using "1.prems"(2) by (simp only: length_upto)
    finally show ?thesis using "1.prems"(1) by simp
  qed
  show ?case
  proof (cases c)
    case None
    then show ?thesis using "1.prems" len by (simp add: chain_loop_None)
  next
    case (Some x)
    show ?thesis
    proof (cases "x = 0 \<or> \<not> lvl \<le> m \<or> x \<in> v")
      case True
      with Some show ?thesis using "1.prems" len by (simp add: chain_loop_stop)
    next
      case False
      have "map level (refs @ [\<lparr>referrer_id = x, referred_id = n, level = lvl, edge_is_active = True,
                      total_commission_earned = 0\<rparr>]) = [1..lvl + 1 - 1]"
        using "1.prems" by (simp add: upto_rec2)
      with Some False "1.IH" [of x] "1.prems" show ?thesis by (simp add: chain_loop_step)
    qed
  qed
qed

lemma chain_loop_referrers:
  "set (map referrer_id refs) \<subseteq> v \<Longrightarrow> distinct (map referrer_id refs) \<Longrightarrow>
   distinct (map referrer_id (chain_loop us n m c lvl v refs))"
proof (induction us n m c lvl v refs rule: chain_loop.induct)
  case (1 us n m c lvl v refs)
  show ?case
  proof (cases c)
    case None
    then show ?thesis using "1.prems" by (simp add: chain_loop_None)
  next
    case (Some x)
    show ?thesis
    proof (cases "x = 0 \<or> \<not> lvl \<le> m \<or> x \<in> v")
      case True
      with Some show ?thesis using "1.prems" by (simp add: chain_loop_stop)
    next
      case False
      with Some "1.IH" [of x] "1.prems" show ?thesis by (auto simp: chain_loop_step)
    qed
  qed
qed

text \<open>
  C8. \<open>create_referral_chain\<close> with \<open>max_levels = 5\<close> is a total function of any stored
  sponsor table (the loop's termination is proved with the definition): it returns at most 5
  edges, their levels are 1, 2, ... in order, and no referrer occurs twice, so a sponsor id
  met again ends the chain instead of raising.
\<close>

theorem create_referral_chain_bounded:
  "length (create_referral_chain us sponsor new_user_id 5) \<le> 5 \<and>
   map level (create_referral_chain us sponsor new_user_id 5) =
     [1..int (length (create_referral_chain us sponsor new_user_id 5))] \<and>
   distinct (map referrer_id (create_referral_chain us sponsor new_user_id 5))"
proof -
  have "length (chain_loop us new_user_id 5 c 1 {} []) \<le> 5" for c
    using chain_loop_length [of us new_user_id 5 c 1 "{}" "[]"] by simp
  moreover have "map level (chain_loop us new_user_id 5 c 1 {} []) =
      [1..int (length (chain_loop us new_user_id 5 c 1 {} []))]" for c
    by (rule chain_loop_levels) simp_all
  moreover have "distinct (map referrer_id (chain_loop us new_user_id 5 c 1 {} []))" for c
    by (rule chain_loop_referrers) simp_all
  ultimately show ?thesis
    by (simp add: create_referral_chain_def split: option.splits)
qed

text \<open>On the cyclic table the chain from sponsor 1 stops after the two distinct sponsors.\<close>

lemma create_referral_chain_cycle:
  "create_referral_chain cyclic_users (Some 1) 3 5 =
     [\<lparr>referrer_id = 1, referred_id = 3, level = 1, edge_is_active = True, total_commission_earned = 0\<rparr>,
      \<lparr>referrer_id = 2, referred_id = 3, level = 2, edge_is_active = True, total_commission_earned = 0\<rparr>]"
  by (simp add: create_referral_chain_def cyclic_users_def chain_loop_step chain_loop_stop)

section \<open>Accrual engine\<close>

lemma ensure_wallet_frame:
  "packages (ensure_wallet k s) = packages s"
  "investments (ensure_wallet k s) = investments s"
  "investment_returns (ensure_wallet k s) = investment_returns s"
  "users (ensure_wallet k s) = users s"
  "referrals (ensure_wallet k s) = referrals s"
  "incomes (ensure_wallet k s) = incomes s"
  "transactions (ensure_wallet k s) = transactions s"
  by (simp_all add: ensure_wallet_def split: option.splits)

lemma ensure_wallet_present: "wallets (ensure_wallet k s) k \<noteq> None"
  by (simp add: ensure_wallet_def split: option.splits)

lemma add_balance_frame:
  assumes "add_balance k a s = Inr s'"
  shows "packages s' = packages s" and "investments s' = investments s"
    and "investment_returns s' = investment_returns s" and "users s' = users s"
    and "referrals s' = referrals s" and "incomes s' = incomes s"
  using assms
  by (auto simp: add_balance_def Let_def update_total_income_wallet_def log_wallet_transaction_def
      split: option.splits if_splits)

lemma add_balance_ok:
  "wallets s k \<noteq> None \<Longrightarrow> 0 < a \<Longrightarrow> \<exists>s'. add_balance k a s = Inr s'"
  by (auto simp: add_balance_def Let_def)

lemma process_False: "process_investment_return s r a d = (False, s') \<Longrightarrow> s' = s"
  by (auto simp: process_investment_return_def Let_def split: option.splits sum.splits)

lemma process_True:
  assumes "process_investment_return s r a d = (True, s')"
  shows "packages s' = packages s"
    and "investments s' = store_investment
           (r\<lparr>total_returns_paid := total_returns_paid r + a, last_return_date := Some d\<rparr>) (investments s)"
    and "\<exists>start. returns_start_date r = Some start \<and>
           investment_returns s' = investment_returns s @
             [\<lparr>investment_id = inv_id r, return_date = d, return_amount = a,
               days_since_start = d - start + 1\<rparr>]"
    and "0 < a" and "users s' = users s" and "referrals s' = referrals s"
  using assms
  by (auto simp: process_investment_return_def Let_def ensure_wallet_frame
      split: option.splits sum.splits dest: add_balance_frame)
     (auto simp: add_balance_def split: option.splits if_splits)

lemma eligible_on_start: "eligible_on d r \<Longrightarrow> returns_start_date r \<noteq> None"
  by (auto simp: eligible_on_def split: option.splits)

lemma eligible_on_last: "eligible_on d r \<Longrightarrow> last_return_date r \<noteq> Some d"
  by (auto simp: eligible_on_def split: option.splits)

lemma store_investment_rows:
  "r' \<in> set (store_investment e rows) \<Longrightarrow> r' = e \<or> r' \<in> set rows"
  by (auto simp: store_investment_def)

lemma store_investment_id:
  "r' \<in> set (store_investment e rows) \<Longrightarrow> inv_id r' = inv_id e \<Longrightarrow> r' = e"
  by (auto simp: store_investment_def split: if_splits)

lemma mature_if_due_eligible: "eligible_on d (mature_if_due d r) \<Longrightarrow> mature_if_due d r = r"
  by (auto simp: mature_if_due_def eligible_on_def split: if_splits)

lemma mature_if_due_idem: "mature_if_due d (mature_if_due d r) = mature_if_due d r"
  by (simp add: mature_if_due_def)

lemma update_investment_statuses_idem:
  "update_investment_statuses d (update_investment_statuses d s) = update_investment_statuses d s"
  by (simp add: update_investment_statuses_def mature_if_due_idem)

lemma find_investment_Some:
  "find_investment s i = Some r \<Longrightarrow> inv_id r = i \<and> r \<in> set (investments s)"
  by (auto simp: find_investment_def find_Some_iff)

lemma store_investment_status:
  "r \<in> set (store_investment e rows) \<Longrightarrow> inv_id r = inv_id e \<Longrightarrow> status r = status e"
  by (auto dest: store_investment_id)

text \<open>The product of a \<open>Numeric\<close> column and a \<open>Float\<close> column raises, whatever the values.\<close>

lemma py_mul_decimal_float: "py_mul (PyDecimal, a) (PyFloat, b) = Inl TypeError"
  by (simp add: py_mul_def result_type_def)

lemma percentage_share: "py_truediv (PyFloat, q) (PyInt, 100) = Inr (PyFloat, q / 100)"
  by (simp add: py_truediv_def result_type_def)

lemma expected_total_return_raises:
  "expected_total_return s r =
     (case package_of s r of None \<Rightarrow> Inl AttributeError | Some p \<Rightarrow> Inl TypeError)"
  by (simp add: expected_total_return_def percentage_share py_mul_decimal_float split: option.splits)

lemma returns_remaining_raises:
  "returns_remaining s r =
     (case package_of s r of None \<Rightarrow> Inl AttributeError | Some p \<Rightarrow> Inl TypeError)"
  by (simp add: returns_remaining_def expected_total_return_raises split: option.splits)

text \<open>
  So \<open>_calculate_daily_return\<close> has two outcomes only: the \<open>int\<close> 0 of a guard, or \<open>TypeError\<close>
  at \<open>investment.amount_invested * (package.total_return_percentage / 100)\<close>.
\<close>

lemma calculate_daily_return_outcomes:
  "calculate_daily_return s r d =
     (case package_of s r of
        None \<Rightarrow> Inr (PyInt, 0)
      | Some p \<Rightarrow>
          if duration_days p \<le> 0 \<or> total_return_percentage p < 0 then Inr (PyInt, 0)
          else Inl TypeError)"
  by (simp add: calculate_daily_return_def percentage_share py_mul_decimal_float split: option.splits)

lemma calculate_daily_return_not_positive:
  "calculate_daily_return s r d = Inr a \<Longrightarrow> snd a = 0"
  by (auto simp: calculate_daily_return_outcomes split: option.splits if_splits)

text \<open>The loop therefore processes nothing, and a daily run is the maturity sweep alone.\<close>

lemma accrual_loop_pays_nothing: "accrual_loop d es acc s = (acc, s)"
proof (induction es)
  case Nil
  show ?case by simp
next
  case (Cons e es)
  show ?case
  proof (cases "calculate_daily_return s e d")
    case (Inl err)
    with Cons show ?thesis by simp
  next
    case (Inr a)
    then have "snd a = 0" by (rule calculate_daily_return_not_positive)
    with Inr Cons show ?thesis by simp
  qed
qed

lemma daily_run_is_sweep:
  "calculate_daily_investment_returns d s = ((0, 0), update_investment_statuses d s)"
  by (simp add: calculate_daily_investment_returns_def accrual_loop_pays_nothing)

lemma update_investment_statuses_frame:
  "investment_returns (update_investment_statuses d s) = investment_returns s"
  "packages (update_investment_statuses d s) = packages s"
  "wallets (update_investment_statuses d s) = wallets s"
  "transactions (update_investment_statuses d s) = transactions s"
  "incomes (update_investment_statuses d s) = incomes s"
  by (simp_all add: update_investment_statuses_def)

lemma update_investment_statuses_paid:
  "map total_returns_paid (investments (update_investment_statuses d s)) =
   map total_returns_paid (investments s)"
  by (simp add: update_investment_statuses_def mature_if_due_def comp_def)

text \<open>
  The crediting step itself, were it reached with a positive amount, stores the day as the
  position's \<open>last_return_date\<close>, and the filter then leaves the position out.
\<close>

lemma process_investment_return_token:
  assumes "process_investment_return s r a d = (True, s')"
    and "x \<in> set (investments s')" and "inv_id x = inv_id r"
  shows "last_return_date x = Some d \<and> \<not> eligible_on d x"
proof -
  let ?r' = "r\<lparr>total_returns_paid := total_returns_paid r + a, last_return_date := Some d\<rparr>"
  from process_True(2) [OF assms(1)] assms(2,3) have "x = ?r'"
    using store_investment_id [of x ?r' "investments s"] by simp
  then have "last_return_date x = Some d" by simp
  then show ?thesis using eligible_on_last [of d x] by blast
qed

text \<open>
  C2. Running the daily return calculation again on the same date, on the state the first
  run left, changes nothing: the whole stored state (every position's \<open>total_returns_paid\<close>,
  the \<open>InvestmentReturn\<close> rows, the wallets) is the state after one run, and the second run
  processes no position.
\<close>

theorem daily_accrual_idempotent:
  "calculate_daily_investment_returns d (snd (calculate_daily_investment_returns d s)) =
     ((0, 0), snd (calculate_daily_investment_returns d s))"
  by (simp add: daily_run_is_sweep update_investment_statuses_idem)

section \<open>Eligibility\<close>

text \<open>Unfolding sets for evaluating the engine on the sample states.\<close>

lemmas sample_defs = sample_db_def sample_package_def sample_position_def empty_db_def

lemmas number_defs = py_mul_def py_sub_def py_truediv_def py_min_def py_max_def result_type_def

lemmas engine_defs = calculate_daily_investment_returns_def get_eligible_investments_def eligible_on_def
  calculate_daily_return_def package_of_def expected_total_return_def returns_remaining_def
  update_investment_statuses_def mature_if_due_def number_defs

lemma manual_distribute_returns_never_pays:
  "snd (manual_distribute_returns s i amount d) = s \<and>
   (\<forall>a. fst (manual_distribute_returns s i amount d) \<noteq> Success a)"
  by (simp add: manual_distribute_returns_def returns_remaining_raises split: option.splits)

text \<open>
  C6. A position is selected for a return on date \<open>D\<close> exactly when it is a stored position
  with status \<open>ACTIVE\<close>, a start date \<open>\<le> D\<close>, a maturity date \<open>> D\<close> (strict) and a last
  return date that is null or \<open>< D\<close>; the model property \<open>is_eligible_for_return_today\<close> is
  the same predicate; every position a daily run on \<open>D\<close> selects matures after \<open>D\<close>; and
  neither a daily run nor a manual distribution adds a return row or changes what a position
  was paid, so no position accrues a return on or after its maturity date.
\<close>

theorem eligibility_predicate:
  "(investment \<in> set (get_eligible_investments D s) \<longleftrightarrow>
      investment \<in> set (investments s) \<and> status investment = ACTIVE \<and>
      (\<exists>d. returns_start_date investment = Some d \<and> d \<le> D) \<and>
      (\<exists>d. maturity_date investment = Some d \<and> D < d) \<and>
      (last_return_date investment = None \<or> (\<exists>d. last_return_date investment = Some d \<and> d < D))) \<and>
   (is_eligible_for_return_today D investment \<longleftrightarrow> eligible_on D investment) \<and>
   (\<forall>r \<in> set (get_eligible_investments D s). \<exists>m. maturity_date r = Some m \<and> D < m) \<and>
   investment_returns (snd (calculate_daily_investment_returns D s)) = investment_returns s \<and>
   map total_returns_paid (investments (snd (calculate_daily_investment_returns D s))) =
     map total_returns_paid (investments s) \<and>
   snd (manual_distribute_returns s i amount D) = s"
proof -
  have a: "investment \<in> set (get_eligible_investments D s) \<longleftrightarrow>
      investment \<in> set (investments s) \<and> status investment = ACTIVE \<and>
      (\<exists>d. returns_start_date investment = Some d \<and> d \<le> D) \<and>
      (\<exists>d. maturity_date investment = Some d \<and> D < d) \<and>
      (last_return_date investment = None \<or> (\<exists>d. last_return_date investment = Some d \<and> d < D))"
    by (auto simp: get_eligible_investments_def eligible_on_def split: option.splits)
  have b: "is_eligible_for_return_today D investment \<longleftrightarrow> eligible_on D investment"
    by (auto simp: is_eligible_for_return_today_def eligible_on_def split: option.splits)
  have c: "\<forall>r \<in> set (get_eligible_investments D s). \<exists>m. maturity_date r = Some m \<and> D < m"
    by (auto simp: get_eligible_investments_def eligible_on_def split: option.splits)
  have d: "investment_returns (snd (calculate_daily_investment_returns D s)) = investment_returns s"
    by (simp add: daily_run_is_sweep update_investment_statuses_frame)
  have e: "map total_returns_paid (investments (snd (calculate_daily_investment_returns D s))) =
     map total_returns_paid (investments s)"
    by (simp add: daily_run_is_sweep update_investment_statuses_paid)
  have f: "snd (manual_distribute_returns s i amount D) = s"
    using manual_distribute_returns_never_pays by blast
  from a b c d e f show ?thesis by blast
qed

text \<open>
  The sample position is selected on day 10 and not on its maturity day 190, and what the
  theorem gives for a position selected on day 10 is a maturity date after day 10.
\<close>

theorem eligibility_predicate_witness:
  "sample_position \<in> set (get_eligible_investments 10 sample_db) \<and>
   \<not> sample_position \<in> set (get_eligible_investments 190 sample_db) \<and>
   (\<exists>m. maturity_date sample_position = Some m \<and> 10 < m) \<and>
   is_eligible_for_return_today 10 sample_position"
proof -
  note th = eligibility_predicate [of sample_position 10 sample_db 1 20]
  from th have e: "sample_position \<in> set (get_eligible_investments 10 sample_db)"
    by (simp add: sample_defs)
  from eligibility_predicate [of sample_position 190 sample_db 1 20] have
    m: "\<not> sample_position \<in> set (get_eligible_investments 190 sample_db)"
    by (simp add: sample_defs)
  from th e have x: "\<exists>m. maturity_date sample_position = Some m \<and> 10 < m" by blast
  from th e have t: "is_eligible_for_return_today 10 sample_position"
    by (simp add: get_eligible_investments_def)
  from e m x t show ?thesis by blast
qed

section \<open>Scheduled accrual and manual distribution on the sample position\<close>

lemmas manual_defs = manual_distribute_returns_def find_investment_def

text \<open>
  C1. The sample position (200 in a package of 25 percent over 180 days, nothing paid yet) is
  eligible on day 10 and its scheduled amount would be \<open>min (200 * 25/100 / 180) (50 - 0)\<close>.
  The code multiplies the \<open>Decimal\<close> principal by the \<open>float\<close> percentage share, which raises
  \<open>TypeError\<close>; the batch loop logs it and goes on, so the run of day 10 processes nothing and
  leaves the state as it was: no credit, no return row, \<open>total_returns_paid\<close> still 0.
\<close>

theorem scheduled_accrual_raises:
  "sample_position \<in> set (get_eligible_investments 10 sample_db) \<and>
   package_of sample_db sample_position = Some sample_package \<and>
   calculate_daily_return sample_db sample_position 10 = Inl TypeError \<and>
   calculate_daily_investment_returns 10 sample_db = ((0, 0), sample_db)"
  by (simp add: sample_defs engine_defs)

text \<open>
  C10. A manual distribution of 20 to the sample position on day 10, well within the remaining
  50: reading \<open>returns_remaining\<close> raises the same \<open>TypeError\<close>, the function reports failure
  and stores nothing, and the position is still selected by the daily run of day 10.
\<close>

theorem manual_distribution_raises:
  "find_investment sample_db 1 = Some sample_position \<and>
   returns_remaining sample_db sample_position = Inl TypeError \<and>
   manual_distribute_returns sample_db 1 20 10 = (Raised TypeError, sample_db) \<and>
   last_return_date sample_position = None \<and>
   sample_position \<in> set (get_eligible_investments 10 (snd (manual_distribute_returns sample_db 1 20 10)))"
  by (simp add: sample_defs engine_defs manual_defs)

section \<open>Settlement\<close>

lemmas settle_defs = settle_matured_investment_def find_investment_def matured_db_def matured_position_def

lemma settle_not_matured:
  "find_investment s i = Some investment \<Longrightarrow> status investment \<noteq> MATURED \<Longrightarrow>
   settle_matured_investment s i opt f = (Failure ''Investment is not matured yet'', s)"
  by (simp add: settle_matured_investment_def)

text \<open>A positive \<open>float\<close> fee percent raises at \<open>principal_amount * settlement_fee_percent\<close>, for either disposition.\<close>

lemma settle_float_fee:
  "find_investment s i = Some investment \<Longrightarrow> status investment = MATURED \<Longrightarrow> 0 < f \<Longrightarrow>
   settle_matured_investment s i opt (PyFloat, f) = (Raised TypeError, s)"
  by (simp add: settle_matured_investment_def py_mul_decimal_float)

text \<open>
  With a fee percent \<open>f \<ge> 0\<close> that is an \<open>int\<close> or a \<open>Decimal\<close> the function does what is
  intended: \<open>available_fund\<close> rises by \<open>principal * (1 - f/100)\<close> and the position becomes
  \<open>CANCELLED\<close>; \<open>keep_invested\<close> moves no money.
\<close>

lemma settle_available_fund_exact_fee:
  assumes "find_investment s i = Some investment" and "package_of s investment = Some p"
    and "status investment = MATURED" and "fst fee \<noteq> PyFloat" and "0 \<le> snd fee"
  shows "\<exists>s'. settle_matured_investment s i ''available_fund'' fee =
           (Success (amount_invested investment * (1 - snd fee / 100),
                     amount_invested investment * snd fee / 100), s') \<and>
         balance_of s' (user_id investment, ''available_fund'') =
           balance_of s (user_id investment, ''available_fund'') +
             amount_invested investment * (1 - snd fee / 100) \<and>
         investments s' = store_investment (investment\<lparr>status := CANCELLED\<rparr>) (investments s)"
proof (cases "0 < snd fee")
  case True
  with assms show ?thesis
    by (cases fee; cases "fst fee")
       (auto simp: settle_matured_investment_def Let_def number_defs ensure_wallet_def new_wallet_def
          package_of_def balance_of_def algebra_simps split: option.splits)
next
  case False
  with assms(5) have "snd fee = 0" by simp
  with assms show ?thesis
    by (auto simp: settle_matured_investment_def Let_def number_defs ensure_wallet_def new_wallet_def
          package_of_def balance_of_def split: option.splits)
qed

lemma settle_keep_invested_exact_fee:
  assumes "find_investment s i = Some investment" and "package_of s investment = Some p"
    and "status investment = MATURED" and "fst fee \<noteq> PyFloat"
  shows "settle_matured_investment s i ''keep_invested'' fee =
           (Success (amount_invested investment,
                     if 0 < snd fee then amount_invested investment * snd fee / 100 else 0),
            s\<lparr>investments := store_investment (investment\<lparr>status := CANCELLED\<rparr>) (investments s)\<rparr>)"
  using assms
  by (cases fee; cases "fst fee")
     (auto simp: settle_matured_investment_def Let_def number_defs)

lemma settle_int_fee_scenario:
  "balance_of matured_db (1, ''available_fund'') = 300 \<and>
   balance_of (snd (settle_matured_investment matured_db 1 ''available_fund'' (PyInt, 2)))
     (1, ''available_fund'') = 496 \<and>
   map status (investments (snd (settle_matured_investment matured_db 1 ''available_fund'' (PyInt, 2)))) =
     [CANCELLED]"
  by (simp add: settle_defs sample_defs number_defs Let_def package_of_def ensure_wallet_def
      store_investment_def balance_of_def)

text \<open>
  C7. The matured sample position (principal 200) settled with disposition \<open>available_fund\<close>
  and the fee percent 2 as the \<open>float\<close> the admin route builds from the form: the product of the
  \<open>Decimal\<close> principal and the \<open>float\<close> fee raises \<open>TypeError\<close>, the session is rolled back and
  the function reports failure. Nothing is credited (the balance stays 300 instead of 496) and
  the position stays \<open>MATURED\<close>; the same happens for \<open>keep_invested\<close>.
\<close>

theorem settlement_float_fee_raises:
  "find_investment matured_db 1 = Some matured_position \<and>
   status matured_position = MATURED \<and> amount_invested matured_position = 200 \<and>
   settle_matured_investment matured_db 1 ''available_fund'' (PyFloat, 2) = (Raised TypeError, matured_db) \<and>
   settle_matured_investment matured_db 1 ''keep_invested'' (PyFloat, 2) = (Raised TypeError, matured_db) \<and>
   balance_of matured_db (1, ''available_fund'') = 300 \<and>
   map status (investments matured_db) = [MATURED]"
  by (simp add: settle_defs sample_defs number_defs balance_of_def)

section \<open>Commission distribution\<close>

lemma ensure_wallet_balance_of: "balance_of (ensure_wallet k s) k' = balance_of s k'"
  by (simp add: ensure_wallet_def balance_of_def new_wallet_def split: option.splits)

lemma ensure_wallet_keeps: "wallets s k' \<noteq> None \<Longrightarrow> wallets (ensure_wallet k s) k' \<noteq> None"
  by (auto simp: ensure_wallet_def split: option.splits)

lemma add_balance_balance_of:
  assumes "add_balance k a s = Inr s'" and "snd k' \<noteq> ''total_income''"
  shows "balance_of s' k' = balance_of s k' + (if k' = k then a else 0)"
  using assms
  by (cases k; cases k')
     (auto simp: add_balance_def Let_def update_total_income_wallet_def log_wallet_transaction_def
        balance_of_def split: option.splits if_splits)

lemma add_balance_keeps:
  assumes "add_balance k a s = Inr s'" and "wallets s k' \<noteq> None"
  shows "wallets s' k' \<noteq> None"
  using assms
  by (auto simp: add_balance_def Let_def update_total_income_wallet_def log_wallet_transaction_def
        split: option.splits if_splits)

lemma pays_cong:
  "\<forall>u. map_option is_active (users s' u) = map_option is_active (users s u) \<Longrightarrow>
   pays s' amount rates r = pays s amount rates r"
proof -
  assume "\<forall>u. map_option is_active (users s' u) = map_option is_active (users s u)"
  then have "map_option is_active (users s' (referrer_id r)) = map_option is_active (users s (referrer_id r))"
    by blast
  then show ?thesis
    by (cases "users s' (referrer_id r)"; cases "users s (referrer_id r)") (simp_all add: pays_def)
qed

lemma distribute_loop_skip:
  "\<not> pays s amount rates r \<Longrightarrow>
   distribute_loop uid amount rates (r # rest) acc s = distribute_loop uid amount rates rest acc s"
  by (auto simp: pays_def Let_def split: option.splits)

lemma distribute_loop_pay:
  assumes "pays s amount rates r" and "users s uid \<noteq> None"
  shows "\<exists>s3. distribute_loop uid amount rates (r # rest) acc s =
           distribute_loop uid amount rates rest
             (acc @ [(referrer_id r, level r, calculate_commission amount (level r) rates,
                      commission_wallet_type (level r))]) s3 \<and>
         (\<forall>u. map_option is_active (users s3 u) = map_option is_active (users s u)) \<and>
         users s3 uid \<noteq> None \<and>
         (\<forall>k. snd k \<noteq> ''total_income'' \<longrightarrow>
            balance_of s3 k = balance_of s k +
              (if k = commission_wallet r then calculate_commission amount (level r) rates else 0)) \<and>
         (\<forall>k. wallets s k \<noteq> None \<longrightarrow> wallets s3 k \<noteq> None) \<and>
         wallets s3 (commission_wallet r) \<noteq> None"
proof -
  let ?c = "calculate_commission amount (level r) rates"
  let ?k = "commission_wallet r"
  let ?s1 = "ensure_wallet ?k s"
  from assms(1) obtain referrer where ref: "users s (referrer_id r) = Some referrer" "is_active referrer"
    and pos: "0 < ?c"
    by (auto simp: pays_def split: option.splits)
  from assms(2) obtain purchaser where pu: "users ?s1 uid = Some purchaser"
    by (auto simp: ensure_wallet_frame)
  obtain s2 where ab: "add_balance ?k ?c ?s1 = Inr s2"
    using add_balance_ok [OF ensure_wallet_present pos] by blast
  note fr = add_balance_frame [OF ab]
  let ?s3 = "s2\<lparr>referrals := add_commission_to_edge r ?c (referrals s2),
      incomes := incomes s2 @
        [Income (referrer_id r) (if level r = 1 then ''Direct Referral'' else ''Level Bonus'')
           ?c (Some uid) (Some (level r))],
      users := (users s2)(referrer_id r \<mapsto> referrer\<lparr>total_earnings := total_earnings referrer + ?c\<rparr>)\<rparr>"
  have step: "distribute_loop uid amount rates (r # rest) acc s =
           distribute_loop uid amount rates rest
             (acc @ [(referrer_id r, level r, ?c, commission_wallet_type (level r))]) ?s3"
    using ref pos pu ab by (simp add: Let_def commission_wallet_def)
  have us: "users s2 = users s" using fr(4) by (simp add: ensure_wallet_frame)
  have act: "\<forall>u. map_option is_active (users ?s3 u) = map_option is_active (users s u)"
    using us ref by simp
  have pres: "users ?s3 uid \<noteq> None" using us assms(2) by simp
  have bal: "\<forall>k. snd k \<noteq> ''total_income'' \<longrightarrow>
            balance_of ?s3 k = balance_of s k + (if k = ?k then ?c else 0)"
  proof (intro allI impI)
    fix k :: "int \<times> string" assume k: "snd k \<noteq> ''total_income''"
    have "balance_of ?s3 k = balance_of s2 k" by (simp add: balance_of_def)
    also have "\<dots> = balance_of ?s1 k + (if k = ?k then ?c else 0)"
      using add_balance_balance_of [OF ab k] .
    finally show "balance_of ?s3 k = balance_of s k + (if k = ?k then ?c else 0)"
      by (simp add: ensure_wallet_balance_of)
  qed
  have keep: "\<forall>k. wallets s k \<noteq> None \<longrightarrow> wallets ?s3 k \<noteq> None"
    using add_balance_keeps [OF ab] ensure_wallet_keeps [of s _ ?k] by simp
  have here: "wallets ?s3 ?k \<noteq> None"
    using add_balance_keeps [OF ab ensure_wallet_present] by simp
  from step act pres bal keep here show ?thesis by blast
qed

lemma distribute_loop_effect:
  assumes "users s uid \<noteq> None"
  shows "\<exists>s'. distribute_loop uid amount rates es acc s =
           (None,
            acc @ map (\<lambda>r. (referrer_id r, level r, calculate_commission amount (level r) rates,
                              commission_wallet_type (level r))) (filter (pays s amount rates) es),
            s') \<and>
         (\<forall>k. snd k \<noteq> ''total_income'' \<longrightarrow>
            balance_of s' k = balance_of s k +
              sum_list (map (\<lambda>r. calculate_commission amount (level r) rates)
                (filter (\<lambda>r. pays s amount rates r \<and> commission_wallet r = k) es))) \<and>
         (\<forall>k. wallets s k \<noteq> None \<longrightarrow> wallets s' k \<noteq> None) \<and>
         (\<forall>r \<in> set es. pays s amount rates r \<longrightarrow> wallets s' (commission_wallet r) \<noteq> None)"
  using assms
proof (induction es arbitrary: acc s)
  case Nil
  then show ?case by simp
next
  case (Cons r rest)
  show ?case
  proof (cases "pays s amount rates r")
    case False
    from Cons.IH [OF Cons.prems, of acc] obtain s' where
      "distribute_loop uid amount rates rest acc s =
           (None,
            acc @ map (\<lambda>r. (referrer_id r, level r, calculate_commission amount (level r) rates,
                              commission_wallet_type (level r))) (filter (pays s amount rates) rest),
            s')"
      and "\<forall>k. snd k \<noteq> ''total_income'' \<longrightarrow>
            balance_of s' k = balance_of s k +
              sum_list (map (\<lambda>r. calculate_commission amount (level r) rates)
                (filter (\<lambda>r. pays s amount rates r \<and> commission_wallet r = k) rest))"
      and "\<forall>k. wallets s k \<noteq> None \<longrightarrow> wallets s' k \<noteq> None"
      and "\<forall>r \<in> set rest. pays s amount rates r \<longrightarrow> wallets s' (commission_wallet r) \<noteq> None"
      by blast
    with False show ?thesis
      by (intro exI [of _ s']) (simp add: distribute_loop_skip del: distribute_loop.simps)
  next
    case True
    let ?c = "calculate_commission amount (level r) rates"
    let ?p = "(referrer_id r, level r, ?c, commission_wallet_type (level r))"
    from distribute_loop_pay [OF True Cons.prems, of rest acc] obtain s3 where
      step: "distribute_loop uid amount rates (r # rest) acc s =
           distribute_loop uid amount rates rest (acc @ [?p]) s3"
      and act: "\<forall>u. map_option is_active (users s3 u) = map_option is_active (users s u)"
      and pres: "users s3 uid \<noteq> None"
      and bal: "\<forall>k. snd k \<noteq> ''total_income'' \<longrightarrow>
            balance_of s3 k = balance_of s k + (if k = commission_wallet r then ?c else 0)"
      and keep: "\<forall>k. wallets s k \<noteq> None \<longrightarrow> wallets s3 k \<noteq> None"
      and here: "wallets s3 (commission_wallet r) \<noteq> None"
      by blast
    have pc: "pays s3 amount rates = pays s amount rates"
      using pays_cong [OF act] by (intro ext)
    from Cons.IH [OF pres, of "acc @ [?p]"] obtain s' where
      l: "distribute_loop uid amount rates rest (acc @ [?p]) s3 =
           (None,
            (acc @ [?p]) @ map (\<lambda>r. (referrer_id r, level r, calculate_commission amount (level r) rates,
                              commission_wallet_type (level r))) (filter (pays s amount rates) rest),
            s')"
      and b: "\<forall>k. snd k \<noteq> ''total_income'' \<longrightarrow>
            balance_of s' k = balance_of s3 k +
              sum_list (map (\<lambda>r. calculate_commission amount (level r) rates)
                (filter (\<lambda>r. pays s amount rates r \<and> commission_wallet r = k) rest))"
      and k: "\<forall>k. wallets s3 k \<noteq> None \<longrightarrow> wallets s' k \<noteq> None"
      and w: "\<forall>r \<in> set rest. pays s amount rates r \<longrightarrow> wallets s' (commission_wallet r) \<noteq> None"
      unfolding pc by blast
    show ?thesis
    proof (intro exI [of _ s'] conjI)
      show "distribute_loop uid amount rates (r # rest) acc s =
           (None,
            acc @ map (\<lambda>r. (referrer_id r, level r, calculate_commission amount (level r) rates,
                              commission_wallet_type (level r))) (filter (pays s amount rates) (r # rest)),
            s')"
        using step l True by (simp del: distribute_loop.simps)
      show "\<forall>k. snd k \<noteq> ''total_income'' \<longrightarrow>
            balance_of s' k = balance_of s k +
              sum_list (map (\<lambda>r. calculate_commission amount (level r) rates)
                (filter (\<lambda>r. pays s amount rates r \<and> commission_wallet r = k) (r # rest)))"
        using b bal True by simp
      show "\<forall>k. wallets s k \<noteq> None \<longrightarrow> wallets s' k \<noteq> None"
        using keep k by blast
      show "\<forall>x \<in> set (r # rest). pays s amount rates x \<longrightarrow> wallets s' (commission_wallet x) \<noteq> None"
      proof (intro ballI impI)
        fix x assume x: "x \<in> set (r # rest)" and px: "pays s amount rates x"
        show "wallets s' (commission_wallet x) \<noteq> None"
        proof (cases "x = r")
          case True
          then show ?thesis using here k by blast
        next
          case False
          with x have "x \<in> set rest" by simp
          with w px show ?thesis by blast
        qed
      qed
    qed
  qed
qed

lemma filter_only:
  "distinct xs \<Longrightarrow> r \<in> set xs \<Longrightarrow> filter (\<lambda>x. x = r) xs = [r]"
proof (induction xs)
  case Nil
  then show ?case by simp
next
  case (Cons x xs)
  show ?case
  proof (cases "x = r")
    case True
    with Cons.prems(1) have "r \<notin> set xs" by simp
    then have "filter (\<lambda>x. x = r) xs = []" by (auto simp: filter_empty_conv)
    with True show ?thesis by simp
  next
    case False
    with Cons show ?thesis by simp
  qed
qed

lemma filter_unique:
  assumes "distinct (map f xs)" and "r \<in> set xs" and "P r" and "\<forall>x. g x = g r \<longrightarrow> f x = f r"
  shows "filter (\<lambda>x. P x \<and> g x = g r) xs = [r]"
proof -
  from assms(1) have d: "distinct xs" and i: "inj_on f (set xs)"
    by (simp_all add: distinct_map)
  have eq: "P x \<and> g x = g r \<longleftrightarrow> x = r" if "x \<in> set xs" for x
  proof
    assume "P x \<and> g x = g r"
    with assms(4) have "f x = f r" by blast
    with i that assms(2) show "x = r" by (rule_tac inj_onD)
  next
    assume "x = r"
    with assms(3) show "P x \<and> g x = g r" by simp
  qed
  have "filter (\<lambda>x. P x \<and> g x = g r) xs = filter (\<lambda>x. x = r) xs"
    by (rule filter_cong [OF refl]) (rule eq)
  also have "\<dots> = [r]" using d assms(2) by (rule filter_only)
  finally show ?thesis .
qed

lemma commission_wallet_referrer: "commission_wallet x = commission_wallet r \<Longrightarrow> referrer_id x = referrer_id r"
  by (simp add: commission_wallet_def)

lemma sum_list_commissions:
  "sum_list (map (\<lambda>(u, l, a, w). a)
     (map (\<lambda>r. (referrer_id r, level r, A * rate_for rates (level r) / 100,
                 if level r = 1 then ''total_referral'' else ''level_bonus'')) es)) =
   A * sum_list (map (\<lambda>r. rate_for rates (level r)) es) / 100"
  by (induction es) (simp_all add: algebra_simps add_divide_distrib)

text \<open>
  C3. Commission conservation and routing, for an existing purchaser whose upline edges have
  pairwise distinct referrers (the table's unique constraint). The loop ends without an
  exception; the payouts it reports are, in order, one per upline edge with a positive
  commission and an active referrer, each of amount \<open>A * rate / 100\<close> and routed to
  \<open>total_referral\<close> for level 1 and \<open>level_bonus\<close> otherwise; their sum is \<open>A\<close> times the sum
  of the rates over 100; each such referrer's routed wallet exists afterwards and holds
  exactly that amount more; and no other wallet changes, the \<open>total_income\<close> aggregates apart,
  which every credit of an income wallet maintains.
\<close>

theorem commission_distribution:
  assumes "users s uid \<noteq> None" and "distinct (map referrer_id (get_upline s uid))"
  shows
    "fst (distribute_commissions uid A rates s) = None \<and>
     fst (snd (distribute_commissions uid A rates s)) =
       map (\<lambda>r. (referrer_id r, level r, A * rate_for rates (level r) / 100,
                  if level r = 1 then ''total_referral'' else ''level_bonus''))
         (filter (pays s A rates) (get_upline s uid)) \<and>
     sum_list (map (\<lambda>(u, l, a, w). a) (fst (snd (distribute_commissions uid A rates s)))) =
       A * sum_list (map (\<lambda>r. rate_for rates (level r)) (filter (pays s A rates) (get_upline s uid))) / 100 \<and>
     (\<forall>r \<in> set (filter (pays s A rates) (get_upline s uid)).
        wallets (snd (snd (distribute_commissions uid A rates s)))
          (referrer_id r, if level r = 1 then ''total_referral'' else ''level_bonus'') \<noteq> None \<and>
        balance_of (snd (snd (distribute_commissions uid A rates s)))
          (referrer_id r, if level r = 1 then ''total_referral'' else ''level_bonus'') =
        balance_of s (referrer_id r, if level r = 1 then ''total_referral'' else ''level_bonus'') +
          A * rate_for rates (level r) / 100) \<and>
     (\<forall>k. snd k \<noteq> ''total_income'' \<and>
          k \<notin> commission_wallet ` set (filter (pays s A rates) (get_upline s uid)) \<longrightarrow>
        balance_of (snd (snd (distribute_commissions uid A rates s))) k = balance_of s k)"
proof -
  let ?up = "get_upline s uid"
  let ?paid = "filter (pays s A rates) ?up"
  have "\<exists>s'. distribute_loop uid A rates ?up [] s =
           (None,
            map (\<lambda>r. (referrer_id r, level r, calculate_commission A (level r) rates,
                        commission_wallet_type (level r))) ?paid, s') \<and>
         (\<forall>k. snd k \<noteq> ''total_income'' \<longrightarrow>
            balance_of s' k = balance_of s k +
              sum_list (map (\<lambda>r. calculate_commission A (level r) rates)
                (filter (\<lambda>r. pays s A rates r \<and> commission_wallet r = k) ?up))) \<and>
         (\<forall>k. wallets s k \<noteq> None \<longrightarrow> wallets s' k \<noteq> None) \<and>
         (\<forall>r \<in> set ?up. pays s A rates r \<longrightarrow> wallets s' (commission_wallet r) \<noteq> None)"
    using distribute_loop_effect [OF assms(1), of A rates ?up "[]"] by (simp only: append_Nil)
  then obtain s' where
    run0: "distribute_loop uid A rates ?up [] s =
           (None,
            map (\<lambda>r. (referrer_id r, level r, calculate_commission A (level r) rates,
                        commission_wallet_type (level r))) ?paid, s')"
    and bal: "\<forall>k. snd k \<noteq> ''total_income'' \<longrightarrow>
            balance_of s' k = balance_of s k +
              sum_list (map (\<lambda>r. calculate_commission A (level r) rates)
                (filter (\<lambda>r. pays s A rates r \<and> commission_wallet r = k) ?up))"
    and ex: "\<forall>r \<in> set ?up. pays s A rates r \<longrightarrow> wallets s' (commission_wallet r) \<noteq> None"
    by (elim exE conjE)
  have run: "distribute_commissions uid A rates s =
           (None,
            map (\<lambda>r. (referrer_id r, level r, calculate_commission A (level r) rates,
                        commission_wallet_type (level r))) ?paid, s')"
    unfolding distribute_commissions_def by (rule run0)
  have list: "fst (snd (distribute_commissions uid A rates s)) =
       map (\<lambda>r. (referrer_id r, level r, A * rate_for rates (level r) / 100,
                  if level r = 1 then ''total_referral'' else ''level_bonus'')) ?paid"
    using run by (simp add: calculate_commission_def commission_wallet_type_def)
  have total: "sum_list (map (\<lambda>(u, l, a, w). a) (fst (snd (distribute_commissions uid A rates s)))) =
       A * sum_list (map (\<lambda>r. rate_for rates (level r)) ?paid) / 100"
    unfolding list by (rule sum_list_commissions)
  have each: "\<forall>r \<in> set ?paid.
        wallets s' (referrer_id r, if level r = 1 then ''total_referral'' else ''level_bonus'') \<noteq> None \<and>
        balance_of s' (referrer_id r, if level r = 1 then ''total_referral'' else ''level_bonus'') =
        balance_of s (referrer_id r, if level r = 1 then ''total_referral'' else ''level_bonus'') +
          A * rate_for rates (level r) / 100"
  proof
    fix r assume "r \<in> set ?paid"
    then have r: "r \<in> set ?up" and p: "pays s A rates r" by simp_all
    have key: "commission_wallet r = (referrer_id r, if level r = 1 then ''total_referral'' else ''level_bonus'')"
      by (simp add: commission_wallet_def commission_wallet_type_def)
    have nt: "snd (commission_wallet r) \<noteq> ''total_income''"
      by (simp add: commission_wallet_def commission_wallet_type_def)
    have one: "filter (\<lambda>x. pays s A rates x \<and> commission_wallet x = commission_wallet r) ?up = [r]"
      by (rule filter_unique [where f = referrer_id and g = commission_wallet and P = "pays s A rates",
            OF assms(2) r p]) (simp add: commission_wallet_def)
    have "balance_of s' (commission_wallet r) =
        balance_of s (commission_wallet r) + calculate_commission A (level r) rates"
      using bal [rule_format, OF nt] by (simp only: one list.map sum_list.Cons sum_list.Nil add_0_right)
    moreover from ex r p have "wallets s' (commission_wallet r) \<noteq> None" by blast
    ultimately show "wallets s' (referrer_id r, if level r = 1 then ''total_referral'' else ''level_bonus'') \<noteq> None \<and>
        balance_of s' (referrer_id r, if level r = 1 then ''total_referral'' else ''level_bonus'') =
        balance_of s (referrer_id r, if level r = 1 then ''total_referral'' else ''level_bonus'') +
          A * rate_for rates (level r) / 100"
      unfolding key by (simp add: calculate_commission_def)
  qed
  have others: "\<forall>k. snd k \<noteq> ''total_income'' \<and> k \<notin> commission_wallet ` set ?paid \<longrightarrow>
        balance_of s' k = balance_of s k"
  proof (intro allI impI)
    fix k :: "int \<times> string"
    assume k: "snd k \<noteq> ''total_income'' \<and> k \<notin> commission_wallet ` set ?paid"
    have "\<forall>r \<in> set ?up. \<not> (pays s A rates r \<and> commission_wallet r = k)"
    proof (intro ballI notI)
      fix r assume "r \<in> set ?up" and "pays s A rates r \<and> commission_wallet r = k"
      then have "k \<in> commission_wallet ` set ?paid" by force
      with k show False by simp
    qed
    then have "filter (\<lambda>r. pays s A rates r \<and> commission_wallet r = k) ?up = []"
      by (simp only: filter_empty_conv)
    moreover from bal k have "balance_of s' k = balance_of s k +
              sum_list (map (\<lambda>r. calculate_commission A (level r) rates)
                (filter (\<lambda>r. pays s A rates r \<and> commission_wallet r = k) ?up))" by blast
    ultimately show "balance_of s' k = balance_of s k" by simp
  qed
  have s': "snd (snd (distribute_commissions uid A rates s)) = s'"
    and e: "fst (distribute_commissions uid A rates s) = None"
    using run by simp_all
  show ?thesis
    unfolding s' by (intro conjI) (rule e list total each others)+
qed


lemmas commission_defs = distribute_commissions_def get_upline_def calculate_commission_def rate_for_def
  default_commission_rates_def commission_wallet_type_def add_commission_to_edge_def pays_def
  commission_db_def empty_db_def

text \<open>
  The scenario of the specification: user 3 buys for 1000 with upline 1 (level 1) and 2
  (level 2) under the default rates; user 1's \<open>total_referral\<close> gets 100, user 2's
  \<open>level_bonus\<close> gets 50, 150 in all.
\<close>

theorem commission_distribution_witness:
  "users commission_db 3 \<noteq> None \<and>
   map referrer_id (get_upline commission_db 3) = [1, 2] \<and>
   filter (pays commission_db 1000 None) (get_upline commission_db 3) = get_upline commission_db 3 \<and>
   fst (snd (distribute_commissions 3 1000 None commission_db)) =
     [(1, 1, 100, ''total_referral''), (2, 2, 50, ''level_bonus'')] \<and>
   sum_list (map (\<lambda>(u, l, a, w). a) (fst (snd (distribute_commissions 3 1000 None commission_db)))) = 150 \<and>
   balance_of (snd (snd (distribute_commissions 3 1000 None commission_db))) (1, ''total_referral'') = 100 \<and>
   balance_of (snd (snd (distribute_commissions 3 1000 None commission_db))) (2, ''level_bonus'') = 50 \<and>
   balance_of (snd (snd (distribute_commissions 3 1000 None commission_db))) (1, ''level_bonus'') = 0"
proof -
  have u: "users commission_db 3 \<noteq> None" by (simp add: commission_defs)
  have up: "get_upline commission_db 3 =
       [\<lparr>referrer_id = 1, referred_id = 3, level = 1, edge_is_active = True, total_commission_earned = 0\<rparr>,
        \<lparr>referrer_id = 2, referred_id = 3, level = 2, edge_is_active = True, total_commission_earned = 0\<rparr>]"
    by (simp add: commission_defs)
  have d: "distinct (map referrer_id (get_upline commission_db 3))"
    unfolding up by simp
  have p: "filter (pays commission_db 1000 None) (get_upline commission_db 3) = get_upline commission_db 3"
    unfolding up by (simp add: commission_defs)
  have b0: "balance_of commission_db k = 0" for k
    by (simp add: balance_of_def commission_defs)
  have r: "rate_for None 1 = 10" "rate_for None 2 = 5"
    by (simp_all add: rate_for_def default_commission_rates_def)
  note th = commission_distribution [OF u d, of 1000 None]
  from th have l: "fst (snd (distribute_commissions 3 1000 None commission_db)) =
     [(1, 1, 100, ''total_referral''), (2, 2, 50, ''level_bonus'')]"
    unfolding p unfolding up by (simp add: r)
  from th have t: "sum_list (map (\<lambda>(u, l, a, w). a)
      (fst (snd (distribute_commissions 3 1000 None commission_db)))) = 150"
    unfolding p unfolding up by (simp add: r)
  from th have e: "balance_of (snd (snd (distribute_commissions 3 1000 None commission_db)))
        (1, ''total_referral'') = 100
      \<and> balance_of (snd (snd (distribute_commissions 3 1000 None commission_db))) (2, ''level_bonus'') = 50"
    unfolding p unfolding up by (simp add: r b0)
  from th have o: "balance_of (snd (snd (distribute_commissions 3 1000 None commission_db)))
        (1, ''level_bonus'') = 0"
    unfolding p unfolding up by (simp add: b0 commission_wallet_def commission_wallet_type_def)
  show ?thesis using u up p l t e o by simp
qed

section \<open>Purchase and the ledger invariant\<close>

lemmas purchase_defs = purchase_investment_def is_available_for_investment_def initialize_user_wallets_def
  get_wallet_types_def ensure_wallet_def new_wallet_def today_investments_def fresh_inv_id_def
  distribute_commissions_def get_upline_def Let_def

text \<open>
  C4. The purchase compares the amount with the wallet's \<open>balance\<close>, not with its
  \<open>available_balance\<close>: with 300 in the wallet, 250 of it locked (50 available), a purchase of
  200 is accepted and leaves a balance of 100 under a lock of 250.
\<close>

theorem purchase_ignores_locked_balance:
  "wallets locked_db (1, ''available_fund'') = Some \<lparr>balance = 300, locked_balance = 250\<rparr> \<and>
   available_balance \<lparr>balance = 300, locked_balance = 250\<rparr> = 50 \<and>
   \<not> isl (purchase_investment locked_db 1 1 200 9) \<and>
   wallets (projr (purchase_investment locked_db 1 1 200 9)) (1, ''available_fund'') =
     Some \<lparr>balance = 100, locked_balance = 250\<rparr>"
  by (simp add: locked_db_def sample_defs purchase_defs available_balance_def)

text \<open>
  C5. The same purchase takes a wallet row that satisfies the ledger invariant to one that
  does not: afterwards \<open>balance < locked_balance\<close>.
\<close>

theorem purchase_breaks_wallet_invariant:
  "wallets locked_db (1, ''available_fund'') = Some \<lparr>balance = 300, locked_balance = 250\<rparr> \<and>
   wallet_ok \<lparr>balance = 300, locked_balance = 250\<rparr> \<and>
   wallets (projr (purchase_investment locked_db 1 1 200 9)) (1, ''available_fund'') =
     Some \<lparr>balance = 100, locked_balance = 250\<rparr> \<and>
   \<not> wallet_ok \<lparr>balance = 100, locked_balance = 250\<rparr>"
  by (simp add: locked_db_def sample_defs purchase_defs wallet_ok_def)

text \<open>A settlement fee above 100 percent (an \<open>int\<close> or a \<open>Decimal\<close>), which the function does not refuse, drives a balance below zero.\<close>

lemma settlement_fee_over_100:
  "balance_of matured_db (1, ''available_fund'') = 300 \<and>
   balance_of (snd (settle_matured_investment matured_db 1 ''available_fund'' (PyInt, 300)))
     (1, ''available_fund'') = - 100"
  by (simp add: settle_defs sample_defs number_defs Let_def package_of_def ensure_wallet_def store_investment_def
      balance_of_def)

text \<open>The ledger's own debit refuses the amount the purchase path lets through.\<close>

lemma subtract_balance_refuses_locked:
  "subtract_balance (1, ''available_fund'') 200 locked_db = Inl ValueError"
  by (simp add: subtract_balance_def locked_db_def sample_defs available_balance_def)

text \<open>The ledger primitives keep the invariant of every wallet row.\<close>

lemma add_balance_wallet_ok:
  assumes "add_balance k a s = Inr s'" and ok: "\<And>k w. wallets s k = Some w \<Longrightarrow> wallet_ok w"
    and "wallets s' k' = Some w'"
  shows "wallet_ok w'"
proof -
  from assms(1) obtain w where w: "wallets s k = Some w" and a: "0 < a"
    by (auto simp: add_balance_def split: option.splits if_splits)
  from ok [OF w] have okw: "wallet_ok (w\<lparr>balance := balance w + a\<rparr>)"
    using a by (simp add: wallet_ok_def)
  let ?t = "(fst k, ''total_income'')"
  have okt: "wallets s ?t = Some t \<Longrightarrow> wallet_ok (t\<lparr>balance := balance t + a\<rparr>)" for t
    using ok [of ?t t] a by (simp add: wallet_ok_def)
  show ?thesis
  proof (cases "wallets s k' = Some w'")
    case True
    then show ?thesis by (rule ok)
  next
    case False
    with assms(1,3) w a okw okt show ?thesis
      by (auto simp: add_balance_def Let_def update_total_income_wallet_def log_wallet_transaction_def
          split: option.splits if_splits)
  qed
qed

lemma subtract_balance_wallet_ok:
  assumes "subtract_balance k a s = Inr s'" and ok: "\<And>k w. wallets s k = Some w \<Longrightarrow> wallet_ok w"
    and "wallets s' k' = Some w'"
  shows "wallet_ok w'"
proof -
  from assms(1) obtain w where w: "wallets s k = Some w"
    by (auto simp: subtract_balance_def split: option.splits)
  from ok [OF w] have okw: "0 \<le> balance w" "0 \<le> locked_balance w" "locked_balance w \<le> balance w"
    by (simp_all add: wallet_ok_def)
  show ?thesis
  proof (cases "wallets s k' = Some w'")
    case True
    then show ?thesis by (rule ok)
  next
    case False
    with assms(1,3) w okw show ?thesis
      by (auto simp: subtract_balance_def log_wallet_transaction_def available_balance_def wallet_ok_def split: if_splits)
  qed
qed

lemma lock_balance_wallet_ok:
  assumes "lock_balance k a s = Inr s'" and ok: "\<And>k w. wallets s k = Some w \<Longrightarrow> wallet_ok w"
    and "wallets s' k' = Some w'"
  shows "wallet_ok w'"
proof -
  from assms(1) obtain w where w: "wallets s k = Some w"
    by (auto simp: lock_balance_def split: option.splits)
  from ok [OF w] have okw: "0 \<le> balance w" "0 \<le> locked_balance w" "locked_balance w \<le> balance w"
    by (simp_all add: wallet_ok_def)
  show ?thesis
  proof (cases "wallets s k' = Some w'")
    case True
    then show ?thesis by (rule ok)
  next
    case False
    with assms(1,3) w okw show ?thesis
      by (auto simp: lock_balance_def available_balance_def wallet_ok_def split: if_splits)
  qed
qed

lemma unlock_balance_wallet_ok:
  assumes "unlock_balance k a s = Inr s'" and ok: "\<And>k w. wallets s k = Some w \<Longrightarrow> wallet_ok w"
    and "wallets s' k' = Some w'"
  shows "wallet_ok w'"
proof -
  from assms(1) obtain w where w: "wallets s k = Some w"
    by (auto simp: unlock_balance_def split: option.splits)
  from ok [OF w] have okw: "0 \<le> balance w" "0 \<le> locked_balance w" "locked_balance w \<le> balance w"
    by (simp_all add: wallet_ok_def)
  show ?thesis
  proof (cases "wallets s k' = Some w'")
    case True
    then show ?thesis by (rule ok)
  next
    case False
    with assms(1,3) w okw show ?thesis
      by (auto simp: unlock_balance_def wallet_ok_def split: if_splits)
  qed
qed

lemma transfer_to_wallet_ok:
  assumes "transfer_to k t a s = Inr s'" and ok: "\<And>k w. wallets s k = Some w \<Longrightarrow> wallet_ok w"
    and "wallets s' k' = Some w'"
  shows "wallet_ok w'"
proof -
  from assms(1) obtain s1 s2 where d: "subtract_balance k a s = Inr s1"
    and c: "add_balance t a s1 = Inr s2" and w: "wallets s' = wallets s2"
    by (auto simp: transfer_to_def split: option.splits if_splits sum.splits)
  have ok1: "wallets s1 x = Some y \<Longrightarrow> wallet_ok y" for x y
    by (rule subtract_balance_wallet_ok [OF d ok])
  from assms(3) w have "wallets s2 k' = Some w'" by simp
  with add_balance_wallet_ok [OF c, of k' w'] ok1 show ?thesis by blast
qed

text \<open>
  What does hold of the purchase: an accepted purchase lowers the user's \<open>available_fund\<close>
  balance by exactly the amount (the commission loop never pays into that wallet), and the
  amount is positive and at most the balance.
\<close>

lemma initialize_user_wallets_balance_of:
  "balance_of (initialize_user_wallets uid s) k = balance_of s k"
  by (simp add: initialize_user_wallets_def get_wallet_types_def ensure_wallet_balance_of)

lemma initialize_user_wallets_frame:
  "users (initialize_user_wallets uid s) = users s"
  "investments (initialize_user_wallets uid s) = investments s"
  "packages (initialize_user_wallets uid s) = packages s"
  by (simp_all add: initialize_user_wallets_def get_wallet_types_def ensure_wallet_frame)

lemma distribute_commissions_other_wallet:
  assumes "users s uid \<noteq> None" and "snd k \<noteq> ''total_income''"
    and "snd k \<noteq> ''total_referral''" and "snd k \<noteq> ''level_bonus''"
  shows "balance_of (snd (snd (distribute_commissions uid A rates s))) k = balance_of s k"
proof -
  let ?up = "get_upline s uid"
  have "\<exists>s'. distribute_loop uid A rates ?up [] s =
           (None,
            [] @ map (\<lambda>r. (referrer_id r, level r, calculate_commission A (level r) rates,
                        commission_wallet_type (level r))) (filter (pays s A rates) ?up), s') \<and>
         (\<forall>k. snd k \<noteq> ''total_income'' \<longrightarrow>
            balance_of s' k = balance_of s k +
              sum_list (map (\<lambda>r. calculate_commission A (level r) rates)
                (filter (\<lambda>r. pays s A rates r \<and> commission_wallet r = k) ?up))) \<and>
         (\<forall>k. wallets s k \<noteq> None \<longrightarrow> wallets s' k \<noteq> None) \<and>
         (\<forall>r \<in> set ?up. pays s A rates r \<longrightarrow> wallets s' (commission_wallet r) \<noteq> None)"
    by (rule distribute_loop_effect [OF assms(1)])
  then obtain s' where
    run: "distribute_loop uid A rates ?up [] s =
           (None,
            [] @ map (\<lambda>r. (referrer_id r, level r, calculate_commission A (level r) rates,
                        commission_wallet_type (level r))) (filter (pays s A rates) ?up), s')"
    and bal: "\<forall>k. snd k \<noteq> ''total_income'' \<longrightarrow>
            balance_of s' k = balance_of s k +
              sum_list (map (\<lambda>r. calculate_commission A (level r) rates)
                (filter (\<lambda>r. pays s A rates r \<and> commission_wallet r = k) ?up))"
    by (elim exE conjE)
  have "\<forall>r \<in> set ?up. \<not> (pays s A rates r \<and> commission_wallet r = k)"
    using assms(3,4) by (auto simp: commission_wallet_def commission_wallet_type_def)
  then have "filter (\<lambda>r. pays s A rates r \<and> commission_wallet r = k) ?up = []"
    by (simp only: filter_empty_conv)
  with bal [rule_format, OF assms(2)] have "balance_of s' k = balance_of s k" by simp
  moreover have "snd (snd (distribute_commissions uid A rates s)) = s'"
    unfolding distribute_commissions_def using run by simp
  ultimately show ?thesis by simp
qed

lemma purchase_investment_debit:
  assumes "purchase_investment s uid pid amount today = Inr s'"
  shows "balance_of s' (uid, ''available_fund'') = balance_of s (uid, ''available_fund'') - amount \<and>
         0 < amount \<and> amount \<le> balance_of s (uid, ''available_fund'')"
proof -
  let ?k = "(uid, ''available_fund'')"
  let ?s1 = "initialize_user_wallets uid s"
  from assms obtain package user w where
    pk: "packages s pid = Some package" and us: "users s uid = Some user"
    and w: "wallets ?s1 ?k = Some w" and pos: "0 < amount" and enough: "\<not> balance w < amount"
    by (auto simp: purchase_investment_def Let_def split: option.splits if_splits)
  let ?s2 = "?s1\<lparr>investments := investments ?s1 @
        [\<lparr>inv_id = fresh_inv_id ?s1, user_id = uid, package_id = pid,
          amount_invested = amount, investment_date = today,
          returns_start_date = Some (today + 1),
          maturity_date = Some (today + 1 + duration_days package), total_returns_paid = 0,
          last_return_date = None, status = ACTIVE\<rparr>],
      wallets := (wallets ?s1)(?k \<mapsto> w\<lparr>balance := balance w - amount\<rparr>),
      transactions := transactions ?s1 @
        [Transaction uid ''investment_purchase'' ''available_fund'' amount]\<rparr>"
  from assms pk us w have s': "s' = snd (snd (distribute_commissions uid amount None ?s2))"
    by (auto simp: purchase_investment_def Let_def split: option.splits if_splits prod.splits)
  have u2: "users ?s2 uid \<noteq> None" using us by (simp add: initialize_user_wallets_frame)
  have b1: "balance_of ?s1 ?k = balance w" using w by (simp add: balance_of_def)
  have "balance_of s' ?k = balance_of ?s2 ?k"
    unfolding s' by (rule distribute_commissions_other_wallet [OF u2]) simp_all
  also have "\<dots> = balance w - amount" by (simp add: balance_of_def)
  finally show ?thesis
    using b1 pos enough by (simp add: initialize_user_wallets_balance_of)
qed

text \<open>
  The sample user (300 in \<open>available_fund\<close>) buys 200 on day 20: balance 100, a new \<open>ACTIVE\<close>
  position accruing from day 21 and maturing on day 201; 400 is refused for insufficient funds
  and 50 for the package minimum.
\<close>

lemma purchase_investment_scenario:
  "balance_of sample_db (1, ''available_fund'') = 300 \<and>
   \<not> isl (purchase_investment sample_db 1 1 200 20) \<and>
   balance_of (projr (purchase_investment sample_db 1 1 200 20)) (1, ''available_fund'') = 100 \<and>
   investments (projr (purchase_investment sample_db 1 1 200 20)) =
     [sample_position,
      \<lparr>inv_id = 2, user_id = 1, package_id = 1, amount_invested = 200, investment_date = 20,
       returns_start_date = Some 21, maturity_date = Some 201, total_returns_paid = 0,
       last_return_date = None, status = ACTIVE\<rparr>] \<and>
   purchase_investment sample_db 1 1 400 20 = Inl InsufficientFunds \<and>
   purchase_investment sample_db 1 1 50 20 = Inl BelowMinimum"
  by (simp add: sample_defs purchase_defs balance_of_def)

end
